theory Spec2Isabelle
  imports Main
begin

section \<open>JavaScript values\<close>

text \<open>
  The parsers work on untyped JSON-like values (\<^verbatim>\<open>any\<close>, \<^verbatim>\<open>JSONObject\<close>). They are
  modelled by one recursive sum type. An object is the list of its own enumerable
  properties in insertion order, which is the order \<^verbatim>\<open>Object.keys\<close> and
  \<^verbatim>\<open>Object.entries\<close> enumerate (for the non-index keys used here). Numbers are
  integers: \<^verbatim>\<open>NaN\<close>, the infinities and fractions are not represented.
\<close>

datatype jsval =
    JUndefined
  | JNull
  | JBool bool
  | JNum int
  | JStr string
  | JArr "jsval list"
  | JObj "(string \<times> jsval) list"

type_synonym jobject = "(string \<times> jsval) list"

text \<open>\<^verbatim>\<open>Object.keys(obj)\<close>.\<close>

definition keys :: "jobject \<Rightarrow> string list" where
  "keys obj = map fst obj"

text \<open>\<^verbatim>\<open>obj[k]\<close>: the value of an own property, \<^verbatim>\<open>undefined\<close> when there is none.\<close>

definition getProp :: "jobject \<Rightarrow> string \<Rightarrow> jsval" where
  "getProp obj k = (case map_of obj k of None \<Rightarrow> JUndefined | Some v \<Rightarrow> v)"

text \<open>\<^verbatim>\<open>obj[k] = v\<close>: an existing property keeps its place, a new one goes last.\<close>

fun setProp :: "jobject \<Rightarrow> string \<Rightarrow> jsval \<Rightarrow> jobject" where
  "setProp [] k v = [(k, v)]"
| "setProp ((k', v') # rest) k v =
     (if k' = k then (k, v) # rest else (k', v') # setProp rest k v)"

text \<open>Truthiness, as \<^verbatim>\<open>if (x)\<close>, \<^verbatim>\<open>x && y\<close> and \<^verbatim>\<open>!x\<close> read a value.\<close>

fun truthy :: "jsval \<Rightarrow> bool" where
  "truthy JUndefined = False"
| "truthy JNull = False"
| "truthy (JBool b) = b"
| "truthy (JNum n) = (n \<noteq> 0)"
| "truthy (JStr s) = (s \<noteq> [])"
| "truthy (JArr xs) = True"
| "truthy (JObj kvs) = True"

text \<open>
  \<^verbatim>\<open>a === b\<close>. Primitives compare by value. Arrays and objects compare by reference,
  and references are not represented: two array or object values of the model stand
  for two distinct references, so \<open>strict_eq\<close> is \<open>False\<close> on them. Lemma
  \<open>isEqual_same\<close> below shows that \<open>isEqual\<close> returns \<open>True\<close> on one and the same
  value without this shortcut, so the outcome for a shared reference is the same.
\<close>

fun strict_eq :: "jsval \<Rightarrow> jsval \<Rightarrow> bool" where
  "strict_eq JUndefined JUndefined = True"
| "strict_eq JNull JNull = True"
| "strict_eq (JBool a) (JBool b) = (a = b)"
| "strict_eq (JNum a) (JNum b) = (a = b)"
| "strict_eq (JStr a) (JStr b) = (a = b)"
| "strict_eq _ _ = False"

text \<open>\<^verbatim>\<open>x?.constructor.name\<close>: \<^verbatim>\<open>undefined\<close> (here \<open>None\<close>) for \<^verbatim>\<open>null\<close> and \<^verbatim>\<open>undefined\<close>.\<close>

fun constructor_name :: "jsval \<Rightarrow> string option" where
  "constructor_name JUndefined = None"
| "constructor_name JNull = None"
| "constructor_name (JBool b) = Some ''Boolean''"
| "constructor_name (JNum n) = Some ''Number''"
| "constructor_name (JStr s) = Some ''String''"
| "constructor_name (JArr xs) = Some ''Array''"
| "constructor_name (JObj kvs) = Some ''Object''"

text \<open>\<^verbatim>\<open>x === undefined || x === null\<close>, also written \<^verbatim>\<open>x == null\<close>.\<close>

definition nullish :: "jsval \<Rightarrow> bool" where
  "nullish v = (v = JUndefined \<or> v = JNull)"

lemma map_of_size:
  "map_of obj k = Some v \<Longrightarrow> size v < size_list (size_prod (\<lambda>_. 0) size) obj"
  by (induction obj) (auto split: if_splits)

lemma getProp_size:
  "getProp obj k \<noteq> JUndefined \<Longrightarrow>
   size (getProp obj k) < size_list (size_prod (\<lambda>_. 0) size) obj"
  by (auto simp: getProp_def map_of_size split: option.splits)

lemma constructor_name_getProp_size:
  "constructor_name (getProp obj k) = Some n \<Longrightarrow>
   size (getProp obj k) < size_list (size_prod (\<lambda>_. 0) size) obj"
  by (rule getProp_size) auto

section \<open>utils.ts\<close>

subsection \<open>union\<close>

text \<open>
  \<^verbatim>\<open>union(...arrays)\<close> adds every item to a \<^verbatim>\<open>Set\<close> and returns \<^verbatim>\<open>Array.from(set)\<close>:
  the items in the order of their first occurrence.
\<close>

fun set_add :: "'a list \<Rightarrow> 'a \<Rightarrow> 'a list" where
  "set_add s x = (if x \<in> set s then s else s @ [x])"

definition union_arrays :: "'a list list \<Rightarrow> 'a list" where
  "union_arrays arrays = foldl (\<lambda>s array. foldl set_add s array) [] arrays"

subsection \<open>isEqual\<close>

text \<open>
  \<open>isEqual_elems\<close> is the loop over the indices of \<^verbatim>\<open>first\<close> in the \<^verbatim>\<open>Array\<close> branch
  (\<^verbatim>\<open>second[i]\<close> past the end of \<^verbatim>\<open>second\<close> is \<^verbatim>\<open>undefined\<close>), \<open>isEqual_keys\<close> the
  loop over \<^verbatim>\<open>fKeys\<close> in the \<^verbatim>\<open>Object\<close> branch. A \<^verbatim>\<open>break\<close> with \<^verbatim>\<open>equal = false\<close>
  is the result \<open>False\<close>; \<^verbatim>\<open>continue\<close> and falling out of the loop body go on
  with the remaining keys.
\<close>

function isEqual :: "jsval \<Rightarrow> jsval \<Rightarrow> bool"
  and isEqual_elems :: "jsval list \<Rightarrow> jsval list \<Rightarrow> bool"
  and isEqual_keys :: "jobject \<Rightarrow> jobject \<Rightarrow> string list \<Rightarrow> bool"
where
  "isEqual first second =
     (if strict_eq first second then True
      else if (nullish first \<or> nullish second) \<and> (truthy first \<or> truthy second) then False
      else if constructor_name first \<noteq> constructor_name second then False
      else (case first of
              JArr xs \<Rightarrow>
                (case second of
                   JArr ys \<Rightarrow> if length xs \<noteq> length ys then False else isEqual_elems xs ys
                 | _ \<Rightarrow> False)
            | JObj f \<Rightarrow>
                (case second of
                   JObj s \<Rightarrow> if length (keys f) \<noteq> length (keys s) then False
                             else isEqual_keys f s (keys f)
                 | _ \<Rightarrow> False)
            | _ \<Rightarrow> strict_eq first second))"
| "isEqual_elems [] ys = True"
| "isEqual_elems (x # xs) ys =
     (if \<not> isEqual x (case ys of [] \<Rightarrow> JUndefined | y # _ \<Rightarrow> y) then False
      else isEqual_elems xs (tl ys))"
| "isEqual_keys f s [] = True"
| "isEqual_keys f s (k # ks) =
     (if truthy (getProp f k) \<and> truthy (getProp s k) then
        (if strict_eq (getProp f k) (getProp s k) then isEqual_keys f s ks
         else if constructor_name (getProp f k) = Some ''Array''
                 \<or> constructor_name (getProp f k) = Some ''Object'' then
           (if isEqual (getProp f k) (getProp s k) then isEqual_keys f s ks else False)
         else False)
      else if (truthy (getProp f k) \<and> \<not> truthy (getProp s k))
              \<or> (\<not> truthy (getProp f k) \<and> truthy (getProp s k)) then False
      else isEqual_keys f s ks)"
  by pat_completeness auto
termination
  by (relation "measures
        [\<lambda>x. case x of Inl (a, b) \<Rightarrow> 2 * size a + 1
                      | Inr (Inl (xs, ys)) \<Rightarrow> 2 * size (JArr xs)
                      | Inr (Inr (f, s, ks)) \<Rightarrow> 2 * size (JObj f),
         \<lambda>x. case x of Inl (a, b) \<Rightarrow> 0
                      | Inr (Inl (xs, ys)) \<Rightarrow> 0
                      | Inr (Inr (f, s, ks)) \<Rightarrow> length ks]")
     (auto dest: constructor_name_getProp_size)

declare isEqual.simps(1) [simp del]

subsection \<open>extractOverrideSettings\<close>

text \<open>
  \<open>globalSettings\<close> is what \<^verbatim>\<open>configRuntime.getGlobalSettings(modelName)\<close> returned
  and \<open>inferenceSettings\<close> the argument of that name, \<open>None\<close> standing for
  \<^verbatim>\<open>null\<close>/\<^verbatim>\<open>undefined\<close>. Both are replaced by a shallow copy (\<^verbatim>\<open>{...(x ?? {})}\<close>), so
  the branch for a null global object is never taken.
\<close>

definition extractOverrideSettings :: "jobject option \<Rightarrow> jobject option \<Rightarrow> jobject" where
  "extractOverrideSettings globalSettings inferenceSettings =
     (let globalModelSettings = (case globalSettings of None \<Rightarrow> [] | Some g \<Rightarrow> g);
          inferenceSettings' = (case inferenceSettings of None \<Rightarrow> [] | Some r \<Rightarrow> r);
          ks = union_arrays [keys globalModelSettings, keys inferenceSettings'];
          overrides =
            foldl (\<lambda>result key.
                     if \<not> isEqual (getProp globalModelSettings key) (getProp inferenceSettings' key)
                     then setProp result key (getProp inferenceSettings' key)
                     else result)
                  [] ks
      in overrides)"

section \<open>parsers/openai.ts: the stream reducer\<close>

subsection \<open>Errors and JavaScript built-ins\<close>

text \<open>
  A thrown exception is a value: \<open>TypeError\<close> is what the runtime throws on a property
  access or \<^verbatim>\<open>Object.entries\<close> of \<^verbatim>\<open>null\<close>/\<^verbatim>\<open>undefined\<close>, \<open>Error msg\<close> is
  \<^verbatim>\<open>throw new Error(msg)\<close> (and a promise rejected with it).
\<close>

datatype js_error = TypeError | Error string

fun typeof :: "jsval \<Rightarrow> string" where
  "typeof JUndefined = ''undefined''"
| "typeof JNull = ''object''"
| "typeof (JBool b) = ''boolean''"
| "typeof (JNum n) = ''number''"
| "typeof (JStr s) = ''string''"
| "typeof (JArr xs) = ''object''"
| "typeof (JObj kvs) = ''object''"

fun isArray :: "jsval \<Rightarrow> bool" where
  "isArray (JArr xs) = True"
| "isArray _ = False"

text \<open>The decimal name of an array index, as a property key.\<close>

function show_nat :: "nat \<Rightarrow> string" where
  "show_nat n =
     (if n < 10 then [''0123456789'' ! n]
      else show_nat (n div 10) @ [''0123456789'' ! (n mod 10)])"
  by pat_completeness auto
termination
  by (relation "measure id") auto

fun index_entries :: "nat \<Rightarrow> jsval list \<Rightarrow> jobject" where
  "index_entries i [] = []"
| "index_entries i (x # xs) = (show_nat i, x) # index_entries (Suc i) xs"

text \<open>
  The own enumerable properties of a value: those of an object, the indexed
  elements of an array, the indexed one-character strings of a string, none for a
  number or a boolean.
\<close>

fun own_entries :: "jsval \<Rightarrow> jobject" where
  "own_entries (JObj kvs) = kvs"
| "own_entries (JArr xs) = index_entries 0 xs"
| "own_entries (JStr s) = index_entries 0 (map (\<lambda>c. JStr [c]) s)"
| "own_entries _ = []"

text \<open>\<^verbatim>\<open>Object.entries(v)\<close> throws a TypeError on \<^verbatim>\<open>null\<close> and \<^verbatim>\<open>undefined\<close>.\<close>

definition entries :: "jsval \<Rightarrow> js_error + jobject" where
  "entries v = (if nullish v then Inl TypeError else Inr (own_entries v))"

text \<open>\<^verbatim>\<open>{ ...v }\<close> never throws: \<^verbatim>\<open>null\<close> and \<^verbatim>\<open>undefined\<close> spread to nothing.\<close>

definition spread :: "jsval \<Rightarrow> jobject" where
  "spread v = own_entries v"

text \<open>\<^verbatim>\<open>a += b\<close> where both are strings (the only use made of it).\<close>

fun str_concat :: "jsval \<Rightarrow> jsval \<Rightarrow> jsval" where
  "str_concat (JStr a) (JStr b) = JStr (a @ b)"
| "str_concat a b = a"

subsection \<open>reduce\<close>

text \<open>
  \<open>reduce_entries\<close> is the \<^verbatim>\<open>for (const [key, value] of Object.entries(delta))\<close> loop
  on the copied accumulator. The chain of \<^verbatim>\<open>if\<close>/\<^verbatim>\<open>else if\<close> has no final
  \<^verbatim>\<open>else\<close>: a field that matches none of the three tests is left as it is.
\<close>

function reduce :: "jsval \<Rightarrow> jsval \<Rightarrow> js_error + jobject"
  and reduce_entries :: "jobject \<Rightarrow> jobject \<Rightarrow> js_error + jobject"
where
  "reduce acc delta =
     (case entries delta of
        Inl e \<Rightarrow> Inl e
      | Inr es \<Rightarrow> reduce_entries (spread acc) es)"
| "reduce_entries acc [] = Inr acc"
| "reduce_entries acc ((key, val) # rest) =
     (if nullish (getProp acc key) then reduce_entries (setProp acc key val) rest
      else if typeof (getProp acc key) = ''string'' \<and> typeof val = ''string'' then
        reduce_entries (setProp acc key (str_concat (getProp acc key) val)) rest
      else if typeof (getProp acc key) = ''object'' \<and> \<not> isArray (getProp acc key) then
        (case reduce (getProp acc key) val of
           Inl e \<Rightarrow> Inl e
         | Inr merged \<Rightarrow> reduce_entries (setProp acc key (JObj merged)) rest)
      else reduce_entries acc rest)"
  by pat_completeness auto

text \<open>
  Termination. A recursive call descends into the delta, except when the delta is a
  one-character string, whose only entry is that string again; then it descends
  into the accumulator. \<open>weight\<close> measures the delta, \<open>objects\<close> counts the objects
  nested in the accumulator.
\<close>

fun weight :: "jsval \<Rightarrow> nat"
  and weight_list :: "jsval list \<Rightarrow> nat"
  and weight_entries :: "jobject \<Rightarrow> nat"
where
  "weight (JStr s) = max 1 (length s)"
| "weight (JArr xs) = Suc (weight_list xs)"
| "weight (JObj kvs) = Suc (weight_entries kvs)"
| "weight JUndefined = 1"
| "weight JNull = 1"
| "weight (JBool b) = 1"
| "weight (JNum n) = 1"
| "weight_list [] = 0"
| "weight_list (x # xs) = weight x + weight_list xs"
| "weight_entries [] = 0"
| "weight_entries ((k, v) # kvs) = weight v + weight_entries kvs"

fun objects :: "jsval \<Rightarrow> nat"
  and objects_list :: "jsval list \<Rightarrow> nat"
  and objects_entries :: "jobject \<Rightarrow> nat"
where
  "objects (JObj kvs) = Suc (objects_entries kvs)"
| "objects (JArr xs) = objects_list xs"
| "objects (JStr s) = 0"
| "objects JUndefined = 0"
| "objects JNull = 0"
| "objects (JBool b) = 0"
| "objects (JNum n) = 0"
| "objects_list [] = 0"
| "objects_list (x # xs) = objects x + objects_list xs"
| "objects_entries [] = 0"
| "objects_entries ((k, v) # kvs) = objects v + objects_entries kvs"

lemma weight_pos: "0 < weight v"
  by (cases v) auto

lemma weight_index_entries: "weight_entries (index_entries i xs) = weight_list xs"
  by (induction xs arbitrary: i) auto

lemma weight_chars: "weight_list (map (\<lambda>c. JStr [c]) s) = length s"
  by (induction s) auto

lemma weight_own_entries: "weight_entries (own_entries v) \<le> weight v"
  by (cases v) (auto simp: weight_index_entries weight_chars)

lemma objects_getProp: "objects (getProp acc k) \<le> objects_entries acc"
  by (induction acc) (auto simp: getProp_def)

lemma objects_own_entries_getProp:
  assumes "typeof (getProp acc k) = ''object''" and "\<not> isArray (getProp acc k)"
    and "\<not> nullish (getProp acc k)"
  shows "objects_entries (own_entries (getProp acc k)) < objects_entries acc"
  using objects_getProp [of acc k] assms
  by (cases "getProp acc k") (auto simp: nullish_def)

termination reduce
proof (relation "measures
        [\<lambda>x. case x of Inl (acc, delta) \<Rightarrow> weight delta
                      | Inr (acc, es) \<Rightarrow> weight_entries es,
         \<lambda>x. case x of Inl (acc, delta) \<Rightarrow> objects_entries (spread acc)
                      | Inr (acc, es) \<Rightarrow> objects_entries acc,
         \<lambda>x. case x of Inl (acc, delta) \<Rightarrow> 1
                      | Inr (acc, es) \<Rightarrow> 0]", goal_cases)
  case 1
  show ?case by simp
next
  case (2 acc delta es)
  then have "weight_entries es \<le> weight delta"
    using weight_own_entries [of delta] by (auto simp: entries_def split: if_splits)
  then show ?case by auto
qed (auto simp: spread_def weight_pos objects_own_entries_getProp)

declare reduce.simps(1) [simp del]

subsection \<open>multiChoiceMessageReducer\<close>

text \<open>
  A JavaScript \<^verbatim>\<open>Map\<close> keyed by the choice index: its entries in insertion order,
  which is the order of \<^verbatim>\<open>values()\<close>. \<open>map_set\<close> keeps the keys distinct, so the
  length of the list is the \<^verbatim>\<open>size\<close> of the map.
\<close>

type_synonym 'v js_map = "(int \<times> 'v) list"

definition map_get :: "'v js_map \<Rightarrow> int \<Rightarrow> 'v option" where
  "map_get m k = map_of m k"

fun map_set :: "'v js_map \<Rightarrow> int \<Rightarrow> 'v \<Rightarrow> 'v js_map" where
  "map_set [] k v = [(k, v)]"
| "map_set ((k', v') # rest) k v =
     (if k' = k then (k, v) # rest else (k', v') # map_set rest k v)"

definition map_size :: "'v js_map \<Rightarrow> nat" where
  "map_size m = length m"

definition map_values :: "'v js_map \<Rightarrow> 'v list" where
  "map_values m = map snd m"

text \<open>A choice of a \<^verbatim>\<open>ChatCompletionChunk\<close>, and the chunk as far as the parser reads it.\<close>

record chunk_choice =
  choice_index :: int
  choice_delta :: jsval
  choice_finish_reason :: jsval

record chat_chunk =
  chunk_choices :: "chunk_choice list"

definition choice_count_error :: js_error where
  "choice_count_error =
     Error ''Invalid number of previous choices -- it should match the incoming number of choices''"

text \<open>
  \<open>reduce_choices\<close> is the loop over \<^verbatim>\<open>chunk.choices\<close>; \<^verbatim>\<open>previousMessage ?? []\<close> hands
  an empty array to \<open>reduce\<close> for an index the map does not hold yet.
\<close>

fun reduce_choices :: "jobject js_map \<Rightarrow> chunk_choice list \<Rightarrow> js_error + jobject js_map" where
  "reduce_choices messages [] = Inr messages"
| "reduce_choices messages (choice # rest) =
     (let previousMessage = map_get messages (choice_index choice) in
      case reduce (case previousMessage of None \<Rightarrow> JArr [] | Some m \<Rightarrow> JObj m)
                  (choice_delta choice) of
        Inl e \<Rightarrow> Inl e
      | Inr updatedMessage \<Rightarrow>
          reduce_choices (map_set messages (choice_index choice) updatedMessage) rest)"

definition multiChoiceMessageReducer ::
  "jobject js_map option \<Rightarrow> chat_chunk \<Rightarrow> js_error + jobject js_map" where
  "multiChoiceMessageReducer messages chunk =
     (case messages of
        None \<Rightarrow> reduce_choices [] (chunk_choices chunk)
      | Some ms \<Rightarrow>
          if map_size ms \<noteq> length (chunk_choices chunk) then Inl choice_count_error
          else reduce_choices ms (chunk_choices chunk))"

section \<open>parsers/openai.ts: the chat-completion parser\<close>

subsection \<open>Documents\<close>

text \<open>
  A recorded \<^verbatim>\<open>Output\<close> and a \<^verbatim>\<open>Prompt\<close>; the fields the parsers read dynamically stay
  untyped. \<open>ModelName\<close> is a model referenced by its bare name, \<open>ModelSettings\<close> the
  form \<^verbatim>\<open>{name, settings}\<close>. A missing \<^verbatim>\<open>metadata\<close>, \<^verbatim>\<open>outputs\<close> or
  \<^verbatim>\<open>remember_chat_context\<close> is \<open>None\<close>.
\<close>

record Output =
  output_type :: string
  output_data :: jsval
  execution_count :: jsval
  output_metadata :: jsval

datatype ModelMetadata = ModelName string | ModelSettings string jobject

record PromptMetadata =
  metadata_model :: ModelMetadata
  metadata_parameters :: jobject
  remember_chat_context :: "bool option"

record Prompt =
  prompt_name :: string
  prompt_input :: jsval
  prompt_metadata :: "PromptMetadata option"
  prompt_outputs :: "Output list option"

text \<open>
  What the parser reaches through its base class and the runtime, whose sources are
  not part of the parser files: \<^verbatim>\<open>this.resolvePromptTemplate(template, prompt, aiConfig,
  params)\<close>, \<^verbatim>\<open>aiConfig.getLatestOutput(prompt)\<close>, \<^verbatim>\<open>this.getModelSettings(prompt,
  aiConfig)\<close> (\<open>None\<close> for \<^verbatim>\<open>null\<close>/\<^verbatim>\<open>undefined\<close>), the parser's \<^verbatim>\<open>id\<close>, and
  \<^verbatim>\<open>JSON.stringify\<close>. They are parameters of the model; the document and the
  \<^verbatim>\<open>params\<close> of a call are fixed inside them.
\<close>

record Runtime =
  resolvePromptTemplate :: "jsval \<Rightarrow> Prompt \<Rightarrow> string"
  getLatestOutput :: "Prompt \<Rightarrow> Output option"
  getModelSettings :: "Prompt \<Rightarrow> jobject option"
  parser_id :: string
  stringify :: "jsval \<Rightarrow> string"

text \<open>
  \<^verbatim>\<open>v?.k\<close> for the property names read here (none of them an index or \<^verbatim>\<open>length\<close>):
  the property of an object, \<^verbatim>\<open>undefined\<close> for anything else. \<open>member\<close> is \<^verbatim>\<open>v.k\<close>,
  which throws on \<^verbatim>\<open>null\<close> and \<^verbatim>\<open>undefined\<close>.
\<close>

fun opt_member :: "jsval \<Rightarrow> string \<Rightarrow> jsval" where
  "opt_member (JObj obj) k = getProp obj k"
| "opt_member v k = JUndefined"

definition member :: "jsval \<Rightarrow> string \<Rightarrow> js_error + jsval" where
  "member v k = (if nullish v then Inl TypeError else Inr (opt_member v k))"

text \<open>\<^verbatim>\<open>v?.hasOwnProperty(k)\<close> as a condition, for the same property names.\<close>

fun hasOwnProperty :: "jsval \<Rightarrow> string \<Rightarrow> bool" where
  "hasOwnProperty (JObj obj) k = (k \<in> set (keys obj))"
| "hasOwnProperty v k = False"

text \<open>\<^verbatim>\<open>a ?? b\<close>.\<close>

definition nullish_coalesce :: "jsval \<Rightarrow> jsval \<Rightarrow> jsval" where
  "nullish_coalesce a b = (if nullish a then b else a)"

text \<open>\<^verbatim>\<open>omit(obj, ...keysToOmit)\<close> of utils.ts.\<close>

definition omit :: "jobject \<Rightarrow> string list \<Rightarrow> jobject" where
  "omit obj keysToOmit = filter (\<lambda>(k, v). k \<notin> set keysToOmit) obj"

text \<open>An object literal that ends in \<^verbatim>\<open>...extra\<close>: the properties of \<open>extra\<close> assigned in order.\<close>

definition assign_all :: "jobject \<Rightarrow> jobject \<Rightarrow> jobject" where
  "assign_all base extra = foldl (\<lambda>obj (k, v). setProp obj k v) base extra"

subsection \<open>buildOutputData and getOutputText\<close>

definition buildOutputData :: "jsval \<Rightarrow> jsval" where
  "buildOutputData message =
     (if \<not> nullish message then
        (if \<not> nullish (opt_member message ''content'') then opt_member message ''content''
         else if \<not> nullish (opt_member message ''function_call'') then
           JObj [(''kind'', JStr ''tool_calls''),
                 (''value'', JArr [JObj [(''type'', JStr ''function''),
                                         (''function'', opt_member message ''function_call'')]])]
         else JUndefined)
      else JUndefined)"

text \<open>
  \<open>getOutputText\<close> of both OpenAI parsers (the two bodies are the same). The result
  is the value the function returns: a string for a well-typed output.
\<close>

definition getOutputText :: "Runtime \<Rightarrow> Output option \<Rightarrow> Prompt option \<Rightarrow> jsval" where
  "getOutputText rt output prompt =
     (let output' = (case output of
                       None \<Rightarrow> (case prompt of None \<Rightarrow> None | Some p \<Rightarrow> getLatestOutput rt p)
                     | Some out \<Rightarrow> Some out)
      in case output' of
           None \<Rightarrow> JStr ''''
         | Some out \<Rightarrow>
             if output_type out = ''execute_result'' then
               (if typeof (output_data out) = ''string'' then output_data out
                else if hasOwnProperty (output_data out) ''value'' then
                  (if typeof (opt_member (output_data out) ''value'') = ''string''
                   then opt_member (output_data out) ''value''
                   else JStr (stringify rt (opt_member (output_data out) ''value'')))
                else if hasOwnProperty (output_data out) ''content''
                        \<and> hasOwnProperty (output_data out) ''role'' then
                  (if \<not> nullish (opt_member (output_data out) ''content'')
                   then opt_member (output_data out) ''content''
                   else if truthy (opt_member (output_data out) ''function_call'')
                   then JStr (stringify rt (opt_member (output_data out) ''function_call''))
                   else JStr '''')
                else JStr '''')
             else JStr '''')"

subsection \<open>addPromptAsMessage\<close>

text \<open>
  \<open>getPromptTemplate\<close>: the last branch reads \<^verbatim>\<open>message.content\<close> of the input without
  a guard, which throws when the input is \<^verbatim>\<open>null\<close> or \<^verbatim>\<open>undefined\<close>.
\<close>

definition getPromptTemplate :: "Prompt \<Rightarrow> js_error + jsval" where
  "getPromptTemplate prompt =
     (if typeof (prompt_input prompt) = ''string'' then Inr (prompt_input prompt)
      else if typeof (opt_member (prompt_input prompt) ''data'') = ''string''
        then Inr (opt_member (prompt_input prompt) ''data'')
      else (case member (prompt_input prompt) ''content'' of
              Inl e \<Rightarrow> Inl e
            | Inr content \<Rightarrow> Inr (nullish_coalesce content (JStr ''''))))"

text \<open>
  \<^verbatim>\<open>outputData.value[outputData.value.length - 1]!.function\<close>: the \<^verbatim>\<open>function\<close> of the
  last tool call. On an empty array the element is \<^verbatim>\<open>undefined\<close> and the read throws;
  so it does on a value that is no array (the model leaves aside objects that
  carry a \<^verbatim>\<open>length\<close> of their own).
\<close>

definition last_tool_function :: "jsval \<Rightarrow> js_error + jsval" where
  "last_tool_function v =
     (case v of
        JArr xs \<Rightarrow> (if xs = [] then Inl TypeError else member (last xs) ''function'')
      | _ \<Rightarrow> Inl TypeError)"

text \<open>
  The assistant turn of a recorded output, when the output has one: \<open>Inr None\<close>
  when nothing is appended.
\<close>

definition assistant_message :: "Output \<Rightarrow> js_error + jobject option" where
  "assistant_message out =
     (if output_type out = ''execute_result'' then
        (if (let role = opt_member (output_metadata out) ''role'' in
             if \<not> nullish role then truthy role
             else strict_eq (opt_member (opt_member (output_metadata out) ''raw_response'') ''role'')
                    (JStr ''assistant''))
         then
           (case (if typeof (output_data out) = ''string'' then Inr (output_data out, JUndefined)
                  else if hasOwnProperty (output_data out) ''value'' then
                    (if typeof (opt_member (output_data out) ''value'') = ''string''
                     then Inr (opt_member (output_data out) ''value'', JUndefined)
                     else if strict_eq (opt_member (output_data out) ''kind'') (JStr ''tool_calls'')
                     then (case last_tool_function (opt_member (output_data out) ''value'') of
                             Inl e \<Rightarrow> Inl e
                           | Inr f \<Rightarrow> Inr (JNull, f))
                     else Inr (JNull, JUndefined))
                  else Inr (JNull, JUndefined)) of
              Inl e \<Rightarrow> Inl e
            | Inr (content, functionCall) \<Rightarrow>
                (let name = nullish_coalesce (opt_member (output_metadata out) ''name'')
                              (opt_member (opt_member (output_metadata out) ''raw_response'') ''name'')
                 in Inr (Some ([(''content'', content), (''role'', JStr ''assistant'')]
                               @ (if \<not> nullish functionCall then [(''function_call'', functionCall)] else [])
                               @ (if \<not> nullish name then [(''name'', name)] else [])))))
         else if hasOwnProperty (output_data out) ''content''
                 \<and> hasOwnProperty (output_data out) ''role'' then
           (if strict_eq (opt_member (output_data out) ''role'') (JStr ''assistant'')
            then Inr (Some (own_entries (output_data out)))
            else Inr None)
         else Inr None)
      else Inr None)"

definition addPromptAsMessage ::
  "Runtime \<Rightarrow> Prompt \<Rightarrow> jobject list \<Rightarrow> js_error + jobject list" where
  "addPromptAsMessage rt prompt messages =
     (case getPromptTemplate prompt of
        Inl e \<Rightarrow> Inl e
      | Inr promptTemplate \<Rightarrow>
          (let resolvedPrompt = resolvePromptTemplate rt promptTemplate prompt;
               messages1 =
                 (if typeof (prompt_input prompt) = ''string'' then
                    messages @ [[(''content'', JStr resolvedPrompt), (''role'', JStr ''user'')]]
                  else
                    messages @ [[(''content'', JStr resolvedPrompt),
                                 (''role'', nullish_coalesce (opt_member (prompt_input prompt) ''role'')
                                              (JStr ''user'')),
                                 (''function_call'', opt_member (prompt_input prompt) ''function_call''),
                                 (''name'', opt_member (prompt_input prompt) ''name'')]])
           in case getLatestOutput rt prompt of
                None \<Rightarrow> Inr messages1
              | Some out \<Rightarrow>
                  (case assistant_message out of
                     Inl e \<Rightarrow> Inl e
                   | Inr None \<Rightarrow> Inr messages1
                   | Inr (Some m) \<Rightarrow> Inr (messages1 @ [m]))))"

subsection \<open>deserialize\<close>

text \<open>\<open>when_set x\<close> is \<^verbatim>\<open>x != null ? x : undefined\<close>.\<close>

definition when_set :: "jsval \<Rightarrow> jsval" where
  "when_set x = (if \<not> nullish x then x else JUndefined)"

definition refineChatCompletionParams :: "jobject \<Rightarrow> jobject" where
  "refineChatCompletionParams params =
     [(''model'', getProp params ''model''),
      (''messages'', getProp params ''messages''),
      (''functions'', getProp params ''functions''),
      (''function_call'', when_set (getProp params ''function_call'')),
      (''temperature'', when_set (getProp params ''temperature'')),
      (''top_p'', when_set (getProp params ''top_p'')),
      (''n'', when_set (getProp params ''n'')),
      (''stream'', when_set (getProp params ''stream'')),
      (''stop'', getProp params ''stop''),
      (''max_tokens'', getProp params ''max_tokens''),
      (''presence_penalty'', when_set (getProp params ''presence_penalty'')),
      (''frequency_penalty'', when_set (getProp params ''frequency_penalty'')),
      (''logit_bias'', when_set (getProp params ''logit_bias'')),
      (''user'', getProp params ''user'')]"

text \<open>
  The system prompt of the settings, resolved, as the first message: \<open>[]\<close> when the
  settings have none. A system prompt that is neither a string nor an object is
  outside \<^verbatim>\<open>ChatCompletionMessageParam\<close>; the assignment to its \<^verbatim>\<open>content\<close> throws for
  a number or a boolean (strict mode), and the model answers \<open>TypeError\<close> for an
  array as well, which it cannot represent with a \<^verbatim>\<open>content\<close> property.
\<close>

definition system_messages :: "Runtime \<Rightarrow> Prompt \<Rightarrow> jobject \<Rightarrow> js_error + jobject list" where
  "system_messages rt prompt modelMetadata =
     (if \<not> nullish (getProp modelMetadata ''system_prompt'') then
        (case (if typeof (getProp modelMetadata ''system_prompt'') = ''string''
               then Inr [(''content'', getProp modelMetadata ''system_prompt''),
                         (''role'', JStr ''system'')]
               else (case getProp modelMetadata ''system_prompt'' of
                       JObj m \<Rightarrow> Inr m
                     | _ \<Rightarrow> Inl TypeError)) of
           Inl e \<Rightarrow> Inl e
         | Inr systemPrompt \<Rightarrow>
             Inr [setProp systemPrompt ''content''
                    (JStr (resolvePromptTemplate rt
                             (nullish_coalesce (getProp systemPrompt ''content'') (JStr ''''))
                             prompt))])
      else Inr [])"

text \<open>
  The loop over \<^verbatim>\<open>aiConfig.prompts\<close>: every prompt is added, and the loop breaks after
  the prompt whose name is the target's.
\<close>

fun history_walk ::
  "Runtime \<Rightarrow> Prompt \<Rightarrow> Prompt list \<Rightarrow> jobject list \<Rightarrow> js_error + jobject list" where
  "history_walk rt prompt [] messages = Inr messages"
| "history_walk rt prompt (currentPrompt # rest) messages =
     (case addPromptAsMessage rt currentPrompt messages of
        Inl e \<Rightarrow> Inl e
      | Inr messages' \<Rightarrow>
          if prompt_name currentPrompt = prompt_name prompt then Inr messages'
          else history_walk rt prompt rest messages')"

text \<open>
  The loop that resolves the messages stored in the settings. An element that is
  \<^verbatim>\<open>null\<close>, \<^verbatim>\<open>undefined\<close> or a primitive makes the read or the assignment of
  \<^verbatim>\<open>content\<close> throw; the model answers \<open>TypeError\<close> for every element that is not an
  object.
\<close>

fun resolve_messages :: "Runtime \<Rightarrow> Prompt \<Rightarrow> jsval list \<Rightarrow> js_error + jobject list" where
  "resolve_messages rt prompt [] = Inr []"
| "resolve_messages rt prompt (m # ms) =
     (case m of
        JObj obj \<Rightarrow>
          (case resolve_messages rt prompt ms of
             Inl e \<Rightarrow> Inl e
           | Inr rest \<Rightarrow>
               Inr (setProp obj ''content''
                      (JStr (resolvePromptTemplate rt
                               (nullish_coalesce (getProp obj ''content'') (JStr '''')) prompt))
                    # rest))
      | _ \<Rightarrow> Inl TypeError)"

text \<open>\<^verbatim>\<open>prompt?.metadata?.remember_chat_context\<close>.\<close>

definition remember_context :: "Prompt \<Rightarrow> bool option" where
  "remember_context prompt =
     (case prompt_metadata prompt of None \<Rightarrow> None | Some md \<Rightarrow> remember_chat_context md)"

text \<open>
  \<open>deserialize\<close> of the chat parser; \<open>prompts\<close> is \<^verbatim>\<open>aiConfig.prompts\<close>. The two
  notifications are started and not awaited, so they have no part in the result.
  Stored messages that are not an array make \<^verbatim>\<open>push\<close> (or the assignment in the
  loop) throw.
\<close>

definition deserialize :: "Runtime \<Rightarrow> Prompt \<Rightarrow> Prompt list \<Rightarrow> js_error + jobject" where
  "deserialize rt prompt prompts =
     (let modelMetadata = (case getModelSettings rt prompt of None \<Rightarrow> [] | Some s \<Rightarrow> s);
          completionParams = refineChatCompletionParams modelMetadata
      in if nullish (getProp completionParams ''messages'') then
           (case system_messages rt prompt modelMetadata of
              Inl e \<Rightarrow> Inl e
            | Inr messages0 \<Rightarrow>
                (case (if remember_context prompt \<noteq> Some False
                       then history_walk rt prompt prompts messages0
                       else addPromptAsMessage rt prompt messages0) of
                   Inl e \<Rightarrow> Inl e
                 | Inr messages \<Rightarrow>
                     Inr (setProp completionParams ''messages'' (JArr (map JObj messages)))))
         else
           (case getProp completionParams ''messages'' of
              JArr stored \<Rightarrow>
                (case resolve_messages rt prompt stored of
                   Inl e \<Rightarrow> Inl e
                 | Inr resolved \<Rightarrow>
                     (case addPromptAsMessage rt prompt resolved of
                        Inl e \<Rightarrow> Inl e
                      | Inr messages \<Rightarrow>
                          Inr (setProp completionParams ''messages'' (JArr (map JObj messages)))))
            | _ \<Rightarrow> Inl TypeError))"

subsection \<open>serialize\<close>

text \<open>
  A \<^verbatim>\<open>ChatCompletionCreateParams\<close>: its array of messages, and its other properties
  (\<^verbatim>\<open>omit(data, "messages")\<close>). \<open>config_models\<close> is \<^verbatim>\<open>aiConfig.metadata.models\<close>.
\<close>

record ChatRequest =
  request_messages :: "jobject list"
  request_fields :: jobject

record AIConfig =
  config_prompts :: "Prompt list"
  config_models :: "(string \<times> jobject) list"

text \<open>
  The model metadata of a serialized prompt: the bare name when the global settings
  of the model cover the request, the overrides otherwise, and the whole settings
  when the document has no global settings for the model. The override computation
  is written out in \<open>serialize\<close> as it is in \<open>extractOverrideSettings\<close>.
\<close>

definition serialize_model_metadata :: "AIConfig \<Rightarrow> string \<Rightarrow> jobject \<Rightarrow> ModelMetadata" where
  "serialize_model_metadata aiConfig modelName promptModelMetadata =
     (case map_of (config_models aiConfig) modelName of
        Some globalModelMetadata \<Rightarrow>
          (let ks = union_arrays [keys globalModelMetadata, keys promptModelMetadata];
               overrides =
                 foldl (\<lambda>result key.
                          if \<not> isEqual (getProp globalModelMetadata key) (getProp promptModelMetadata key)
                          then setProp result key (getProp promptModelMetadata key)
                          else result)
                       [] ks
           in if length (keys overrides) > 0 then ModelSettings modelName overrides
              else ModelName modelName)
      | None \<Rightarrow> ModelSettings modelName promptModelMetadata)"

text \<open>
  The body of the \<^verbatim>\<open>while\<close> loop for a user or function message: the prompt built
  from \<open>message\<close>, with the assistant message that follows it (the head of \<open>rest\<close>,
  if it is one) as its output. \<open>count\<close> is \<^verbatim>\<open>prompts.length\<close>.
\<close>

definition message_prompt ::
  "string \<Rightarrow> ModelMetadata \<Rightarrow> jobject \<Rightarrow> jobject \<Rightarrow> jobject list \<Rightarrow> nat \<Rightarrow> Prompt" where
  "message_prompt promptName modelMetadata params message rest count =
     (let assistantResponse =
            (case rest of
               [] \<Rightarrow> None
             | nextMessage # _ \<Rightarrow>
                 if strict_eq (getProp nextMessage ''role'') (JStr ''assistant'')
                 then Some nextMessage else None);
          input = (if strict_eq (getProp message ''role'') (JStr ''user'')
                   then nullish_coalesce (getProp message ''content'') (JStr '''')
                   else JObj message);
          outputs =
            (case assistantResponse of
               None \<Rightarrow> None
             | Some response \<Rightarrow>
                 if \<not> nullish (buildOutputData (JObj response)) then
                   Some [\<lparr>output_type = ''execute_result'',
                          output_data = buildOutputData (JObj response),
                          execution_count = JUndefined,
                          output_metadata =
                            JObj (assign_all [(''raw_response'', JObj response)]
                                    (omit response [''content'', ''function_call'']))\<rparr>]
                 else None)
      in \<lparr>prompt_name = promptName @ ''_'' @ show_nat (count + 1),
          prompt_input = input,
          prompt_metadata =
            Some \<lparr>metadata_model = modelMetadata,
                  metadata_parameters = params,
                  remember_chat_context = Some True\<rparr>,
          prompt_outputs = outputs\<rparr>)"

text \<open>
  The \<^verbatim>\<open>while\<close> loop over the messages (\<open>role\<close> is compared as a string): a user or
  function message becomes a prompt, every other message is skipped.
\<close>

fun serialize_messages ::
  "string \<Rightarrow> ModelMetadata \<Rightarrow> jobject \<Rightarrow> jobject list \<Rightarrow> Prompt list \<Rightarrow> Prompt list" where
  "serialize_messages promptName modelMetadata params [] prompts = prompts"
| "serialize_messages promptName modelMetadata params (message # rest) prompts =
     (if strict_eq (getProp message ''role'') (JStr ''user'')
         \<or> strict_eq (getProp message ''role'') (JStr ''function'')
      then serialize_messages promptName modelMetadata params rest
             (prompts @ [message_prompt promptName modelMetadata params message rest (length prompts)])
      else serialize_messages promptName modelMetadata params rest prompts)"

text \<open>
  \<open>serialize\<close> of the chat parser. \<^verbatim>\<open>prompts[prompts.length - 1]!.name = promptName\<close>
  assigns to a property of \<^verbatim>\<open>undefined\<close> when no prompt was built, which throws.
  \<^verbatim>\<open>data.model\<close> is a string or absent (\<^verbatim>\<open>?? this.id\<close>).
\<close>

definition serialize ::
  "Runtime \<Rightarrow> string \<Rightarrow> ChatRequest \<Rightarrow> AIConfig \<Rightarrow> jobject option \<Rightarrow> js_error + Prompt list" where
  "serialize rt promptName data aiConfig params =
     (let systemPrompt =
            find (\<lambda>message. strict_eq (getProp message ''role'') (JStr ''system''))
              (request_messages data);
          promptModelMetadata =
            setProp (request_fields data) ''system_prompt''
              (case systemPrompt of None \<Rightarrow> JUndefined | Some m \<Rightarrow> JObj m);
          modelName = (case getProp (request_fields data) ''model'' of
                         JStr s \<Rightarrow> s
                       | _ \<Rightarrow> parser_id rt);
          modelMetadata = serialize_model_metadata aiConfig modelName promptModelMetadata;
          prompts = serialize_messages promptName modelMetadata
                      (case params of None \<Rightarrow> [] | Some ps \<Rightarrow> ps)
                      (request_messages data) []
      in if prompts = [] then Inl TypeError
         else Inr (butlast prompts @ [(last prompts)\<lparr>prompt_name := promptName\<rparr>]))"

section \<open>callback.ts\<close>

subsection \<open>Promises\<close>

text \<open>
  A promise is described by how it settles and when, in milliseconds after it was
  created; \<open>Pending\<close> is a promise that never settles. An async function that
  awaits a promise goes on with its value, throws its rejection, or never goes on.
\<close>

datatype 'a promise = Fulfils nat 'a | Rejects nat js_error | Pending

datatype 'a completion = Returns 'a | Throws js_error | Never

fun await :: "'a promise \<Rightarrow> 'a completion" where
  "await (Fulfils t v) = Returns v"
| "await (Rejects t e) = Throws e"
| "await Pending = Never"

text \<open>
  \<^verbatim>\<open>Promise.all(tasks)\<close> rejects as soon as one task rejects, with the reason of the
  task that rejects first (the earlier in the array among tasks that reject at the
  same time); it fulfils with all values once every task has fulfilled.
\<close>

fun first_rejection :: "'a promise list \<Rightarrow> (nat \<times> js_error) option" where
  "first_rejection [] = None"
| "first_rejection (Rejects t e # ps) =
     (case first_rejection ps of
        None \<Rightarrow> Some (t, e)
      | Some (t', e') \<Rightarrow> if t' < t then Some (t', e') else Some (t, e))"
| "first_rejection (p # ps) = first_rejection ps"

fun all_fulfilled :: "'a promise list \<Rightarrow> (nat \<times> 'a list) option" where
  "all_fulfilled [] = Some (0, [])"
| "all_fulfilled (Fulfils t v # ps) =
     (case all_fulfilled ps of
        None \<Rightarrow> None
      | Some (t', vs) \<Rightarrow> Some (max t t', v # vs))"
| "all_fulfilled (p # ps) = None"

definition promise_all :: "'a promise list \<Rightarrow> 'a list promise" where
  "promise_all tasks =
     (case first_rejection tasks of
        Some (t, e) \<Rightarrow> Rejects t e
      | None \<Rightarrow>
          (case all_fulfilled tasks of
             Some (t, vs) \<Rightarrow> Fulfils t vs
           | None \<Rightarrow> Pending))"

subsection \<open>withTimeout\<close>

text \<open>
  \<^verbatim>\<open>Promise.race\<close> of the promise and of a timer that rejects with
  \<^verbatim>\<open>new Error("Timeout")\<close> after \<^verbatim>\<open>timeout * 1000\<close> milliseconds: the first to settle
  wins. A promise that settles in the very millisecond of the timer is taken to win
  (an already settled promise does win against a timer of 0 milliseconds, since the
  timer callback runs as a later task); the properties below do not rest on this
  choice. The time-out is a whole number of seconds.
\<close>

definition withTimeout :: "'a promise \<Rightarrow> nat \<Rightarrow> 'a promise" where
  "withTimeout promise timeout =
     (case promise of
        Fulfils t v \<Rightarrow>
          if t \<le> timeout * 1000 then Fulfils t v
          else Rejects (timeout * 1000) (Error ''Timeout'')
      | Rejects t e \<Rightarrow>
          if t \<le> timeout * 1000 then Rejects t e
          else Rejects (timeout * 1000) (Error ''Timeout'')
      | Pending \<Rightarrow> Rejects (timeout * 1000) (Error ''Timeout''))"

subsection \<open>CallbackManager\<close>

text \<open>
  An event carries a payload of type \<open>'d\<close>; a callback is a function from the event
  to the promise it returns. \<open>DEFAULT_TIMEOUT_SECONDS\<close> is the time-out of a manager
  constructed without one.
\<close>

record 'd CallbackEvent =
  event_name :: string
  event_data :: 'd
  ts_ns :: "int option"

record 'd CallbackManager =
  callbacks :: "('d CallbackEvent \<Rightarrow> jsval promise) list"
  results :: "jsval list"
  timeout :: nat

definition DEFAULT_TIMEOUT_SECONDS :: nat where
  "DEFAULT_TIMEOUT_SECONDS = 0"

definition new_CallbackManager ::
  "('d CallbackEvent \<Rightarrow> jsval promise) list \<Rightarrow> nat option \<Rightarrow> 'd CallbackManager" where
  "new_CallbackManager cbs t =
     \<lparr>callbacks = cbs, results = [],
      timeout = (case t of None \<Rightarrow> DEFAULT_TIMEOUT_SECONDS | Some s \<Rightarrow> s)\<rparr>"

text \<open>The tasks of \<open>runCallbacks\<close>: every callback called with the event, under the time-out.\<close>

definition callback_tasks ::
  "'d CallbackManager \<Rightarrow> int \<Rightarrow> 'd CallbackEvent \<Rightarrow> jsval promise list" where
  "callback_tasks this now event =
     (let eventWithTimeStamp =
            event\<lparr>ts_ns := Some (case ts_ns event of None \<Rightarrow> now | Some ts \<Rightarrow> ts)\<rparr>
      in map (\<lambda>callback. withTimeout (callback eventWithTimeStamp) (timeout this))
           (callbacks this))"

text \<open>
  \<open>runCallbacks\<close>: the promise the async method returns, and the manager, whose
  \<^verbatim>\<open>results\<close> are assigned only when \<^verbatim>\<open>await Promise.all(tasks)\<close> returns. \<open>now\<close> is
  \<^verbatim>\<open>Date.now()\<close>.
\<close>

definition runCallbacks ::
  "'d CallbackManager \<Rightarrow> int \<Rightarrow> 'd CallbackEvent \<Rightarrow> unit promise \<times> 'd CallbackManager" where
  "runCallbacks this now event =
     (case promise_all (callback_tasks this now event) of
        Fulfils t vs \<Rightarrow> (Fulfils t (), this\<lparr>results := vs\<rparr>)
      | Rejects t e \<Rightarrow> (Rejects t e, this)
      | Pending \<Rightarrow> (Pending, this))"

section \<open>The run methods\<close>

subsection \<open>Options, provider and results\<close>

text \<open>
  \<^verbatim>\<open>InferenceOptions\<close>: the \<^verbatim>\<open>stream\<close> option (\<open>None\<close> when it is not supplied) and
  whether a \<^verbatim>\<open>callbacks\<close> handler is supplied. The handler's \<^verbatim>\<open>streamCallback\<close> is
  user code; a run records the arguments of its calls, in order.
\<close>

record InferenceOptions =
  options_stream :: "bool option"
  options_callbacks :: bool

record StreamCall =
  call_data :: jsval
  call_accumulated :: jsval
  call_index :: int

text \<open>
  The provider's responses, as far as the parsers read them. \<open>completion_raw\<close> is
  the whole response as a value, \<open>response_rest\<close> and \<open>cchunk_rest\<close> are
  \<^verbatim>\<open>omit(x, "choices")\<close>, \<open>item_raw\<close> is the whole stream item as a value.
\<close>

record CompletionChoice =
  cc_index :: int
  cc_text :: string
  cc_finish_reason :: jsval
  cc_logprobs :: jsval

record CompletionResponse =
  completion_choices :: "CompletionChoice list"
  completion_raw :: jsval

record CompletionChunk =
  cchunk_choices :: "CompletionChoice list"
  cchunk_rest :: jobject

record ChatChoice =
  chat_choice_index :: int
  chat_choice_message :: jsval
  chat_choice_finish_reason :: jsval

record ChatResponse =
  response_choices :: "ChatChoice list"
  response_rest :: jobject

record TextGenerationStreamOutput =
  token_text :: string
  item_raw :: jsval

text \<open>
  The provider clients are parameters: each call, awaited, returns a response (for
  a streaming call, the fragments in the order of their arrival), throws, or never
  returns. Constructing the client is not modelled.
\<close>

record Provider =
  completions_create :: "jobject \<Rightarrow> CompletionResponse completion"
  completions_create_stream :: "jobject \<Rightarrow> CompletionChunk list completion"
  chat_completions_create :: "jobject \<Rightarrow> ChatResponse completion"
  chat_completions_create_stream :: "jobject \<Rightarrow> chat_chunk list completion"
  textGeneration :: "jobject \<Rightarrow> jsval completion"
  textGenerationStream :: "jobject \<Rightarrow> TextGenerationStreamOutput list completion"

text \<open>
  What a run leaves behind when it returns: the outputs it returns, the prompt with
  these outputs written to it, and the calls of \<^verbatim>\<open>streamCallback\<close>.
\<close>

record RunResult =
  run_outputs :: "Output list"
  run_prompt :: Prompt
  run_stream_calls :: "StreamCall list"

text \<open>The payloads of the two events a run awaits.\<close>

datatype RunEvent = RunStart Prompt "InferenceOptions option" | RunEnd "Output list"

text \<open>\<^verbatim>\<open>options?.callbacks?.streamCallback(data, accumulatedData, index)\<close>.\<close>

definition streamCallback ::
  "InferenceOptions option \<Rightarrow> jsval \<Rightarrow> jsval \<Rightarrow> int \<Rightarrow> StreamCall list \<Rightarrow> StreamCall list" where
  "streamCallback options d accumulated i calls =
     (case options of
        None \<Rightarrow> calls
      | Some opts \<Rightarrow>
          if options_callbacks opts
          then calls @ [\<lparr>call_data = d, call_accumulated = accumulated, call_index = i\<rparr>]
          else calls)"

subsection \<open>The streaming decision of the OpenAI parsers\<close>

text \<open>
  \<^verbatim>\<open>options?.stream ?? completionParams.stream ?? true\<close>; the run streams unless this
  value is falsy (\<^verbatim>\<open>if (!stream)\<close>).
\<close>

definition stream_decision :: "InferenceOptions option \<Rightarrow> jobject \<Rightarrow> jsval" where
  "stream_decision options completionParams =
     nullish_coalesce
       (case options of
          None \<Rightarrow> JUndefined
        | Some opts \<Rightarrow> (case options_stream opts of None \<Rightarrow> JUndefined | Some b \<Rightarrow> JBool b))
       (nullish_coalesce (getProp completionParams ''stream'') (JBool True))"

subsection \<open>OpenAIModelParser: deserialize and run\<close>

definition refineCompletionParams :: "jobject \<Rightarrow> jobject" where
  "refineCompletionParams params =
     [(''model'', getProp params ''model''),
      (''prompt'', getProp params ''prompt''),
      (''temperature'', when_set (getProp params ''temperature'')),
      (''top_p'', when_set (getProp params ''top_p'')),
      (''n'', when_set (getProp params ''n'')),
      (''stream'', when_set (getProp params ''stream'')),
      (''stop'', getProp params ''stop''),
      (''max_tokens'', getProp params ''max_tokens''),
      (''presence_penalty'', when_set (getProp params ''presence_penalty'')),
      (''frequency_penalty'', when_set (getProp params ''frequency_penalty'')),
      (''logit_bias'', when_set (getProp params ''logit_bias'')),
      (''user'', getProp params ''user'')]"

definition completion_deserialize :: "Runtime \<Rightarrow> Prompt \<Rightarrow> jobject" where
  "completion_deserialize rt prompt =
     (let modelMetadata = getModelSettings rt prompt;
          completionParams =
            refineCompletionParams (case modelMetadata of None \<Rightarrow> [] | Some s \<Rightarrow> s);
          resolvedPrompt =
            (if typeof (prompt_input prompt) = ''string''
             then JStr (resolvePromptTemplate rt (prompt_input prompt) prompt)
             else if typeof (opt_member (prompt_input prompt) ''data'') = ''string''
             then JStr (resolvePromptTemplate rt (opt_member (prompt_input prompt) ''data'') prompt)
             else nullish_coalesce (opt_member (prompt_input prompt) ''data'') JNull)
      in setProp completionParams ''prompt'' resolvedPrompt)"

text \<open>The non-streaming branch: one output per choice of the response.\<close>

definition completion_output :: "CompletionResponse \<Rightarrow> CompletionChoice \<Rightarrow> Output" where
  "completion_output response choice =
     \<lparr>output_type = ''execute_result'',
      output_data = JStr (cc_text choice),
      execution_count = JNum (cc_index choice),
      output_metadata = JObj [(''finish_reason'', cc_finish_reason choice),
                              (''logprobs'', cc_logprobs choice),
                              (''raw_response'', completion_raw response)]\<rparr>"

text \<open>
  The streaming branch: the state of the two nested loops is the map of outputs,
  the map of accumulated texts and the calls of \<^verbatim>\<open>streamCallback\<close>.
\<close>

fun completion_stream_choices ::
  "InferenceOptions option \<Rightarrow> jobject \<Rightarrow> CompletionChoice list \<Rightarrow>
   Output js_map \<times> string js_map \<times> StreamCall list \<Rightarrow>
   Output js_map \<times> string js_map \<times> StreamCall list" where
  "completion_stream_choices options chunkWithoutChoices [] state = state"
| "completion_stream_choices options chunkWithoutChoices (choice # rest) (outputs, completions, calls) =
     (let completionText = map_get completions (cc_index choice);
          accumulatedText = (case completionText of None \<Rightarrow> [] | Some s \<Rightarrow> s) @ cc_text choice;
          completions' = map_set completions (cc_index choice) accumulatedText;
          calls' = streamCallback options (JStr (cc_text choice)) (JStr accumulatedText)
                     (cc_index choice) calls;
          output = \<lparr>output_type = ''execute_result'',
                    output_data = JStr accumulatedText,
                    execution_count = JNum (cc_index choice),
                    output_metadata =
                      JObj (assign_all [(''finish_reason'', cc_finish_reason choice),
                                        (''logprobs'', cc_logprobs choice)]
                              chunkWithoutChoices)\<rparr>
      in completion_stream_choices options chunkWithoutChoices rest
           (map_set outputs (cc_index choice) output, completions', calls'))"

fun completion_stream_chunks ::
  "InferenceOptions option \<Rightarrow> CompletionChunk list \<Rightarrow>
   Output js_map \<times> string js_map \<times> StreamCall list \<Rightarrow>
   Output js_map \<times> string js_map \<times> StreamCall list" where
  "completion_stream_chunks options [] state = state"
| "completion_stream_chunks options (chunk # rest) state =
     completion_stream_chunks options rest
       (completion_stream_choices options (cchunk_rest chunk) (cchunk_choices chunk) state)"

definition completion_run ::
  "Runtime \<Rightarrow> Provider \<Rightarrow> Prompt \<Rightarrow> InferenceOptions option \<Rightarrow> RunResult completion" where
  "completion_run rt provider prompt options =
     (let completionParams = completion_deserialize rt prompt;
          stream = stream_decision options completionParams
      in if \<not> truthy stream then
           (case completions_create provider completionParams of
              Throws e \<Rightarrow> Throws e
            | Never \<Rightarrow> Never
            | Returns response \<Rightarrow>
                (let outputs = map (completion_output response) (completion_choices response)
                 in Returns \<lparr>run_outputs = outputs,
                             run_prompt = prompt\<lparr>prompt_outputs := Some outputs\<rparr>,
                             run_stream_calls = []\<rparr>))
         else
           (case completions_create_stream provider completionParams of
              Throws e \<Rightarrow> Throws e
            | Never \<Rightarrow> Never
            | Returns responseStream \<Rightarrow>
                (case completion_stream_chunks options responseStream ([], [], []) of
                   (outputs, completions, calls) \<Rightarrow>
                     Returns \<lparr>run_outputs = map_values outputs,
                              run_prompt = prompt\<lparr>prompt_outputs := Some (map_values outputs)\<rparr>,
                              run_stream_calls = calls\<rparr>)))"

subsection \<open>OpenAIChatModelParser: run\<close>

text \<open>The non-streaming branch: a choice whose message yields no output data is skipped.\<close>

fun chat_outputs :: "jobject \<Rightarrow> ChatChoice list \<Rightarrow> Output list" where
  "chat_outputs responseWithoutChoices [] = []"
| "chat_outputs responseWithoutChoices (choice # rest) =
     (if nullish (buildOutputData (chat_choice_message choice))
      then chat_outputs responseWithoutChoices rest
      else \<lparr>output_type = ''execute_result'',
            output_data = buildOutputData (chat_choice_message choice),
            execution_count = JNum (chat_choice_index choice),
            output_metadata =
              JObj (assign_all
                      (setProp
                         (assign_all [(''finish_reason'', chat_choice_finish_reason choice)]
                            responseWithoutChoices)
                         ''raw_response'' (chat_choice_message choice))
                      (omit (own_entries (chat_choice_message choice))
                         [''content'', ''function_call'']))\<rparr>
           # chat_outputs responseWithoutChoices rest)"

text \<open>
  The streaming branch. \<open>chat_stream_choices\<close> is the inner loop over the choices of
  a chunk, after the chunk has been folded into \<open>messages\<close>: the callback receives a
  copy of the delta and the accumulated message; an output is recorded when the
  accumulated message yields output data.
\<close>

fun chat_stream_choices ::
  "InferenceOptions option \<Rightarrow> jobject js_map \<Rightarrow> chunk_choice list \<Rightarrow>
   Output js_map \<times> StreamCall list \<Rightarrow> Output js_map \<times> StreamCall list" where
  "chat_stream_choices options messages [] state = state"
| "chat_stream_choices options messages (choice # rest) (outputs, calls) =
     (let message = map_get messages (choice_index choice);
          calls' = streamCallback options (JObj (spread (choice_delta choice)))
                     (case message of None \<Rightarrow> JUndefined | Some m \<Rightarrow> JObj m)
                     (choice_index choice) calls
      in case message of
           None \<Rightarrow> chat_stream_choices options messages rest (outputs, calls')
         | Some m \<Rightarrow>
             if nullish (buildOutputData (JObj m))
             then chat_stream_choices options messages rest (outputs, calls')
             else chat_stream_choices options messages rest
                    (map_set outputs (choice_index choice)
                       \<lparr>output_type = ''execute_result'',
                        output_data = buildOutputData (JObj m),
                        execution_count = JNum (choice_index choice),
                        output_metadata =
                          JObj [(''finish_reason'', choice_finish_reason choice),
                                (''raw_response'', JObj m)]\<rparr>,
                     calls'))"

fun chat_stream_chunks ::
  "InferenceOptions option \<Rightarrow> chat_chunk list \<Rightarrow>
   jobject js_map option \<times> Output js_map \<times> StreamCall list \<Rightarrow>
   js_error + Output js_map \<times> StreamCall list" where
  "chat_stream_chunks options [] (messages, outputs, calls) = Inr (outputs, calls)"
| "chat_stream_chunks options (chunk # rest) (messages, outputs, calls) =
     (case multiChoiceMessageReducer messages chunk of
        Inl e \<Rightarrow> Inl e
      | Inr messages' \<Rightarrow>
          (case chat_stream_choices options messages' (chunk_choices chunk) (outputs, calls) of
             (outputs', calls') \<Rightarrow>
               chat_stream_chunks options rest (Some messages', outputs', calls')))"

text \<open>
  The end of both branches: the outputs are written to the prompt, the
  \<^verbatim>\<open>on_run_end\<close> notification is awaited, the outputs are returned.
\<close>

definition run_end ::
  "RunEvent CallbackManager \<Rightarrow> int \<Rightarrow> Prompt \<Rightarrow> Output list \<Rightarrow> StreamCall list \<Rightarrow>
   (RunResult \<times> RunEvent CallbackManager) completion" where
  "run_end manager now prompt outputs calls =
     (case runCallbacks manager now
             \<lparr>event_name = ''on_run_end'', event_data = RunEnd outputs, ts_ns = None\<rparr> of
        (notified, manager') \<Rightarrow>
          (case await notified of
             Throws e \<Rightarrow> Throws e
           | Never \<Rightarrow> Never
           | Returns u \<Rightarrow>
               Returns (\<lparr>run_outputs = outputs,
                         run_prompt = prompt\<lparr>prompt_outputs := Some outputs\<rparr>,
                         run_stream_calls = calls\<rparr>, manager')))"

text \<open>
  \<open>chat_run\<close> is \<^verbatim>\<open>OpenAIChatModelParser.run\<close>; \<open>manager\<close> is
  \<^verbatim>\<open>aiConfig.callbackManager\<close>, \<open>prompts\<close> is \<^verbatim>\<open>aiConfig.prompts\<close>. The
  \<^verbatim>\<open>on_run_start\<close> notification is awaited before anything else.
\<close>

definition chat_run ::
  "Runtime \<Rightarrow> Provider \<Rightarrow> RunEvent CallbackManager \<Rightarrow> int \<Rightarrow> Prompt \<Rightarrow> Prompt list \<Rightarrow>
   InferenceOptions option \<Rightarrow> (RunResult \<times> RunEvent CallbackManager) completion" where
  "chat_run rt provider manager now prompt prompts options =
     (case runCallbacks manager now
             \<lparr>event_name = ''on_run_start'', event_data = RunStart prompt options, ts_ns = None\<rparr> of
        (notified, manager') \<Rightarrow>
          (case await notified of
             Throws e \<Rightarrow> Throws e
           | Never \<Rightarrow> Never
           | Returns u \<Rightarrow>
               (case deserialize rt prompt prompts of
                  Inl e \<Rightarrow> Throws e
                | Inr completionParams \<Rightarrow>
                    if \<not> truthy (stream_decision options completionParams) then
                      (case chat_completions_create provider
                              (setProp completionParams ''stream'' (JBool False)) of
                         Throws e \<Rightarrow> Throws e
                       | Never \<Rightarrow> Never
                       | Returns response \<Rightarrow>
                           run_end manager' now prompt
                             (chat_outputs (response_rest response) (response_choices response)) [])
                    else
                      (case chat_completions_create_stream provider
                              (setProp completionParams ''stream'' (JBool True)) of
                         Throws e \<Rightarrow> Throws e
                       | Never \<Rightarrow> Never
                       | Returns responseStream \<Rightarrow>
                           (case chat_stream_chunks options responseStream (None, [], []) of
                              Inl e \<Rightarrow> Throws e
                            | Inr (outputs, calls) \<Rightarrow>
                                run_end manager' now prompt (map_values outputs) calls)))))"

section \<open>The Hugging Face text-generation parser\<close>

text \<open>\<open>refineCompletionParams\<close> and \<open>deserialize\<close> of the parser.\<close>

definition hf_refineCompletionParams :: "string \<Rightarrow> jobject \<Rightarrow> jobject" where
  "hf_refineCompletionParams input params =
     [(''model'', getProp params ''model''),
      (''inputs'', JStr input),
      (''parameters'',
       JObj [(''do_sample'', when_set (getProp params ''do_sample'')),
             (''max_new_tokens'', when_set (getProp params ''max_new_tokens'')),
             (''max_time'', when_set (getProp params ''max_time'')),
             (''num_return_sequences'', when_set (getProp params ''num_return_sequences'')),
             (''repetition_penalty'', when_set (getProp params ''repetition_penalty'')),
             (''return_full_text'', when_set (getProp params ''return_full_text'')),
             (''temperature'', when_set (getProp params ''temperature'')),
             (''top_k'', when_set (getProp params ''top_k'')),
             (''top_p'', when_set (getProp params ''top_p'')),
             (''truncate'', when_set (getProp params ''truncate'')),
             (''stop_sequences'', when_set (getProp params ''stop_sequences''))])]"

definition hf_deserialize :: "Runtime \<Rightarrow> Prompt \<Rightarrow> jobject" where
  "hf_deserialize rt prompt =
     (let resolvedPrompt = resolvePromptTemplate rt (prompt_input prompt) prompt;
          modelMetadata = (case getModelSettings rt prompt of None \<Rightarrow> [] | Some s \<Rightarrow> s)
      in hf_refineCompletionParams resolvedPrompt modelMetadata)"

text \<open>\<^verbatim>\<open>options ? (options.stream ? options.stream : true) : false\<close>.\<close>

definition hf_stream_decision :: "InferenceOptions option \<Rightarrow> bool" where
  "hf_stream_decision options =
     (case options of
        None \<Rightarrow> False
      | Some opts \<Rightarrow> (if options_stream opts = Some True then True else True))"

text \<open>
  \<open>constructStreamOutput\<close>. The loop keeps the accumulated message and the output,
  which starts as the empty object \<^verbatim>\<open>{}\<close> (here \<open>empty_output\<close>);
  \<^verbatim>\<open>options.callbacks!.streamCallback(...)\<close> throws when the options carry no
  callbacks. The output of an iteration holds \<^verbatim>\<open>newText\<close> as its data.
\<close>

definition empty_output :: Output where
  "empty_output = \<lparr>output_type = [], output_data = JUndefined, execution_count = JUndefined,
                    output_metadata = JUndefined\<rparr>"

fun constructStreamOutput_loop ::
  "InferenceOptions \<Rightarrow> TextGenerationStreamOutput list \<Rightarrow> string \<times> Output \<times> StreamCall list \<Rightarrow>
   js_error + Output \<times> StreamCall list" where
  "constructStreamOutput_loop options [] (accumulatedMessage, output, calls) = Inr (output, calls)"
| "constructStreamOutput_loop options (iteration # rest) (accumulatedMessage, output, calls) =
     (let newText = token_text iteration;
          accumulatedMessage' = accumulatedMessage @ newText
      in if \<not> options_callbacks options then Inl TypeError
         else constructStreamOutput_loop options rest
                (accumulatedMessage',
                 \<lparr>output_type = ''execute_result'',
                  output_data = JStr newText,
                  execution_count = JNum 0,
                  output_metadata = item_raw iteration\<rparr>,
                 calls @ [\<lparr>call_data = JStr newText,
                           call_accumulated = JStr accumulatedMessage',
                           call_index = 0\<rparr>]))"

definition constructStreamOutput ::
  "TextGenerationStreamOutput list \<Rightarrow> InferenceOptions \<Rightarrow> js_error + Output \<times> StreamCall list" where
  "constructStreamOutput response options =
     constructStreamOutput_loop options response ([], empty_output, [])"

definition constructOutput :: "jsval \<Rightarrow> js_error + Output" where
  "constructOutput response =
     (case member response ''generated_text'' of
        Inl e \<Rightarrow> Inl e
      | Inr text \<Rightarrow>
          Inr \<lparr>output_type = ''execute_result'',
               output_data = text,
               execution_count = JNum 0,
               output_metadata = JObj [(''raw_response'', response)]\<rparr>)"

text \<open>
  \<open>hf_run\<close> is \<^verbatim>\<open>HuggingFaceTextGenerationParser.run\<close>. When the run streams, the
  options are defined (\<open>hf_stream_decision\<close> is \<open>False\<close> without them).
\<close>

definition hf_run ::
  "Runtime \<Rightarrow> Provider \<Rightarrow> RunEvent CallbackManager \<Rightarrow> int \<Rightarrow> Prompt \<Rightarrow>
   InferenceOptions option \<Rightarrow> (RunResult \<times> RunEvent CallbackManager) completion" where
  "hf_run rt provider manager now prompt options =
     (case runCallbacks manager now
             \<lparr>event_name = ''on_run_start'', event_data = RunStart prompt options, ts_ns = None\<rparr> of
        (notified, manager') \<Rightarrow>
          (case await notified of
             Throws e \<Rightarrow> Throws e
           | Never \<Rightarrow> Never
           | Returns u \<Rightarrow>
               (let textGenerationArgs = hf_deserialize rt prompt
                in if hf_stream_decision options then
                     (case textGenerationStream provider textGenerationArgs of
                        Throws e \<Rightarrow> Throws e
                      | Never \<Rightarrow> Never
                      | Returns response \<Rightarrow>
                          (case options of
                             None \<Rightarrow> Throws TypeError
                           | Some opts \<Rightarrow>
                               (case constructStreamOutput response opts of
                                  Inl e \<Rightarrow> Throws e
                                | Inr (output, calls) \<Rightarrow>
                                    run_end manager' now prompt [output] calls)))
                   else
                     (case textGeneration provider textGenerationArgs of
                        Throws e \<Rightarrow> Throws e
                      | Never \<Rightarrow> Never
                      | Returns response \<Rightarrow>
                          (case constructOutput response of
                             Inl e \<Rightarrow> Throws e
                           | Inr output \<Rightarrow> run_end manager' now prompt [output] [])))))"

text \<open>\<open>getOutputText\<close> of the parser.\<close>

definition hf_getOutputText :: "Runtime \<Rightarrow> Output option \<Rightarrow> Prompt option \<Rightarrow> jsval" where
  "hf_getOutputText rt output prompt =
     (let output' = (case output of
                       None \<Rightarrow> (case prompt of None \<Rightarrow> None | Some p \<Rightarrow> getLatestOutput rt p)
                     | Some out \<Rightarrow> Some out)
      in case output' of
           None \<Rightarrow> JStr ''''
         | Some out \<Rightarrow>
             if output_type out = ''execute_result'' then
               (if typeof (output_data out) = ''string'' then output_data out
                else if hasOwnProperty (output_data out) ''value'' then
                  (if typeof (opt_member (output_data out) ''value'') = ''string''
                   then opt_member (output_data out) ''value''
                   else JStr (stringify rt (opt_member (output_data out) ''value'')))
                else if hasOwnProperty (output_data out) ''generated_text''
                then opt_member (output_data out) ''generated_text''
                else JStr '''')
             else JStr '''')"

section \<open>Notions used to state the properties\<close>

subsection \<open>Deep equality as the specification words it\<close>

text \<open>
  The specification's deep equality, written from its sentence and not from the
  code: two values are equal if identical by primitive equality; else both must be
  arrays of equal length with pairwise-equal elements in order; else both must be
  plain mappings with the same key set and pairwise-equal values; otherwise unequal.
  (Identity by reference implies the structural clauses, so it adds nothing here.)
\<close>

function deepEqual_spec :: "jsval \<Rightarrow> jsval \<Rightarrow> bool" where
  "deepEqual_spec a b =
     (if strict_eq a b then True
      else (case a of
              JArr xs \<Rightarrow>
                (case b of
                   JArr ys \<Rightarrow> length xs = length ys
                              \<and> list_all (\<lambda>i. deepEqual_spec (xs ! i) (ys ! i)) [0 ..< length xs]
                 | _ \<Rightarrow> False)
            | JObj f \<Rightarrow>
                (case b of
                   JObj s \<Rightarrow> set (keys f) = set (keys s)
                             \<and> list_all (\<lambda>k. deepEqual_spec (getProp f k) (getProp s k)) (keys f)
                 | _ \<Rightarrow> False)
            | _ \<Rightarrow> False))"
  by pat_completeness auto

lemma mem_size: "x \<in> set xs \<Longrightarrow> size x < Suc (size_list size xs)"
  by (induction xs) auto

lemma nth_size: "i < length xs \<Longrightarrow> size (xs ! i) < Suc (size_list size xs)"
  by (rule mem_size) simp

lemma key_map_of: "k \<in> set (keys f) \<Longrightarrow> \<exists>v. map_of f k = Some v"
  by (induction f) (auto simp: keys_def)

lemma key_getProp_size:
  "k \<in> set (keys f) \<Longrightarrow> size (getProp f k) < Suc (size_list (size_prod (\<lambda>_. 0) size) f)"
proof -
  assume "k \<in> set (keys f)"
  then obtain v where v: "map_of f k = Some v"
    using key_map_of by blast
  show ?thesis
    using map_of_size [OF v] by (simp add: getProp_def v)
qed

termination deepEqual_spec
  by (relation "measure (\<lambda>(a, b). size a)") (auto simp: nth_size key_getProp_size)

declare deepEqual_spec.simps [simp del]

text \<open>
  Modelled from the spec: the layering of a prompt's overrides over the global
  settings (\<^verbatim>\<open>getModelSettings\<close> of the runtime is not among the sources). The spec
  speaks of "global settings with explicit per-prompt overrides layered on top":
  every key of the override replaces or adds the key of the global object.
\<close>

definition layer_settings :: "jobject \<Rightarrow> jobject \<Rightarrow> jobject" where
  "layer_settings globalSettings overrides =
     foldl (\<lambda>result (k, v). setProp result k v) globalSettings overrides"

subsection \<open>Values read from JSON\<close>

text \<open>
  \<open>wf_json\<close> holds of the values in which no object names a key twice, at any depth,
  as in every JavaScript object. \<open>truthy_fields\<close> holds of the values in which every
  field of every object is truthy: no \<^verbatim>\<open>0\<close>, \<^verbatim>\<open>""\<close>, \<^verbatim>\<open>false\<close>, \<^verbatim>\<open>null\<close> or \<^verbatim>\<open>undefined\<close>
  stored under a key (array elements are free).
\<close>

fun wf_json :: "jsval \<Rightarrow> bool"
  and wf_list :: "jsval list \<Rightarrow> bool"
  and wf_entries :: "jobject \<Rightarrow> bool"
where
  "wf_json (JObj kvs) = (distinct (keys kvs) \<and> wf_entries kvs)"
| "wf_json (JArr xs) = wf_list xs"
| "wf_json JUndefined = True"
| "wf_json JNull = True"
| "wf_json (JBool b) = True"
| "wf_json (JNum n) = True"
| "wf_json (JStr s) = True"
| "wf_list [] = True"
| "wf_list (x # xs) = (wf_json x \<and> wf_list xs)"
| "wf_entries [] = True"
| "wf_entries ((k, v) # kvs) = (wf_json v \<and> wf_entries kvs)"

fun truthy_fields :: "jsval \<Rightarrow> bool"
  and truthy_fields_list :: "jsval list \<Rightarrow> bool"
  and truthy_fields_entries :: "jobject \<Rightarrow> bool"
where
  "truthy_fields (JObj kvs) = truthy_fields_entries kvs"
| "truthy_fields (JArr xs) = truthy_fields_list xs"
| "truthy_fields JUndefined = True"
| "truthy_fields JNull = True"
| "truthy_fields (JBool b) = True"
| "truthy_fields (JNum n) = True"
| "truthy_fields (JStr s) = True"
| "truthy_fields_list [] = True"
| "truthy_fields_list (x # xs) = (truthy_fields x \<and> truthy_fields_list xs)"
| "truthy_fields_entries [] = True"
| "truthy_fields_entries ((k, v) # kvs) = (truthy v \<and> truthy_fields v \<and> truthy_fields_entries kvs)"

subsection \<open>Field combinations of the stream merge\<close>

text \<open>
  The fields the loop leaves as they are: the accumulator holds a boolean, a number
  or an array, or it holds a string and the incoming value is not a string.
\<close>

fun kept_combination :: "jsval \<Rightarrow> jsval \<Rightarrow> bool" where
  "kept_combination (JBool b) v = True"
| "kept_combination (JNum n) v = True"
| "kept_combination (JArr xs) v = True"
| "kept_combination (JStr s) v = (typeof v \<noteq> ''string'')"
| "kept_combination a v = False"

text \<open>What one pass of the loop body makes of a field \<open>a\<close> of the accumulator.\<close>

definition merged_field :: "jsval \<Rightarrow> jsval \<Rightarrow> js_error + jsval" where
  "merged_field a v =
     (if nullish a then Inr v
      else if typeof a = ''string'' \<and> typeof v = ''string'' then Inr (str_concat a v)
      else if typeof a = ''object'' \<and> \<not> isArray a then
        (case reduce a v of Inl e \<Rightarrow> Inl e | Inr m \<Rightarrow> Inr (JObj m))
      else Inr a)"

text \<open>A value that holds no \<^verbatim>\<open>null\<close> and no \<^verbatim>\<open>undefined\<close> at any depth.\<close>

fun no_nullish :: "jsval \<Rightarrow> bool"
  and no_nullish_list :: "jsval list \<Rightarrow> bool"
  and no_nullish_entries :: "jobject \<Rightarrow> bool"
where
  "no_nullish JUndefined = False"
| "no_nullish JNull = False"
| "no_nullish (JBool b) = True"
| "no_nullish (JNum n) = True"
| "no_nullish (JStr s) = True"
| "no_nullish (JArr xs) = no_nullish_list xs"
| "no_nullish (JObj kvs) = no_nullish_entries kvs"
| "no_nullish_list [] = True"
| "no_nullish_list (x # xs) = (no_nullish x \<and> no_nullish_list xs)"
| "no_nullish_entries [] = True"
| "no_nullish_entries ((k, v) # kvs) = (no_nullish v \<and> no_nullish_entries kvs)"

subsection \<open>The deltas of a fragment, index by index\<close>



subsection \<open>Chat history\<close>

text \<open>The messages \<open>addPromptAsMessage\<close> derives from a list of prompts, one after the other.\<close>

fun add_prompts :: "Runtime \<Rightarrow> Prompt list \<Rightarrow> jobject list \<Rightarrow> js_error + jobject list" where
  "add_prompts rt [] messages = Inr messages"
| "add_prompts rt (p # ps) messages =
     (case addPromptAsMessage rt p messages of
        Inl e \<Rightarrow> Inl e
      | Inr messages' \<Rightarrow> add_prompts rt ps messages')"




subsection \<open>A runtime and prompts for the examples\<close>

text \<open>
  A runtime whose template resolver returns the template unchanged, whose latest
  output of a prompt is the last of its recorded outputs, and which has no model
  settings; and a prompt with a text input and, optionally, one recorded answer of
  the assistant in the shape the chat parser's \<^verbatim>\<open>run\<close> records.
\<close>

definition example_runtime :: Runtime where
  "example_runtime =
     \<lparr>resolvePromptTemplate = (\<lambda>template prompt. case template of JStr s \<Rightarrow> s | _ \<Rightarrow> []),
      getLatestOutput = (\<lambda>prompt. case prompt_outputs prompt of
                                      None \<Rightarrow> None
                                    | Some outs \<Rightarrow> if outs = [] then None else Some (last outs)),
      getModelSettings = (\<lambda>prompt. None),
      parser_id = ''gpt-4'',
      stringify = (\<lambda>v. [])\<rparr>"

definition example_prompt :: "string \<Rightarrow> string \<Rightarrow> bool option \<Rightarrow> string option \<Rightarrow> Prompt" where
  "example_prompt name text remember answer =
     \<lparr>prompt_name = name,
      prompt_input = JStr text,
      prompt_metadata = Some \<lparr>metadata_model = ModelName ''gpt-4'',
                              metadata_parameters = [],
                              remember_chat_context = remember\<rparr>,
      prompt_outputs =
        (case answer of
           None \<Rightarrow> None
         | Some a \<Rightarrow> Some [\<lparr>output_type = ''execute_result'',
                             output_data = JStr a,
                             execution_count = JNum 0,
                             output_metadata =
                               JObj [(''finish_reason'', JStr ''stop''),
                                     (''raw_response'',
                                      JObj [(''role'', JStr ''assistant''),
                                            (''content'', JStr a)])]\<rparr>])\<rparr>"

subsection \<open>Settled promises\<close>

text \<open>
  \<open>settled_by p limit\<close>: the promise has settled \<open>limit\<close> milliseconds after its
  creation; its negation is "still pending" at that time. \<open>stamped now event\<close> is
  the event as the callbacks receive it, with its time stamp.
\<close>

fun settled_by :: "'a promise \<Rightarrow> nat \<Rightarrow> bool" where
  "settled_by (Fulfils t v) limit = (t \<le> limit)"
| "settled_by (Rejects t e) limit = (t \<le> limit)"
| "settled_by Pending limit = False"

fun rejected :: "'a promise \<Rightarrow> bool" where
  "rejected (Rejects t e) = True"
| "rejected p = False"

definition stamped :: "int \<Rightarrow> 'd CallbackEvent \<Rightarrow> 'd CallbackEvent" where
  "stamped now event = event\<lparr>ts_ns := Some (case ts_ns event of None \<Rightarrow> now | Some ts \<Rightarrow> ts)\<rparr>"

subsection \<open>The provider of the streaming scenario\<close>

text \<open>
  A provider whose streaming calls send the fragments "Hel" and "lo" for choice 0,
  each in the shape its parser reads: \<^verbatim>\<open>{choices: [{index: 0, text}]}\<close> for the
  text-completion parser, \<^verbatim>\<open>{choices: [{index: 0, delta: {content}}]}\<close> for the chat
  parser, \<^verbatim>\<open>{token: {text}}\<close> for the text-generation parser. Its other calls never
  return.
\<close>

definition scenario_provider :: Provider where
  "scenario_provider =
     \<lparr>completions_create = (\<lambda>request. Never),
      completions_create_stream = (\<lambda>request. Returns
        [\<lparr>cchunk_choices = [\<lparr>cc_index = 0, cc_text = ''Hel'', cc_finish_reason = JNull,
                              cc_logprobs = JNull\<rparr>], cchunk_rest = []\<rparr>,
         \<lparr>cchunk_choices = [\<lparr>cc_index = 0, cc_text = ''lo'', cc_finish_reason = JStr ''stop'',
                              cc_logprobs = JNull\<rparr>], cchunk_rest = []\<rparr>]),
      chat_completions_create = (\<lambda>request. Never),
      chat_completions_create_stream = (\<lambda>request. Returns
        [\<lparr>chunk_choices = [\<lparr>choice_index = 0, choice_delta = JObj [(''content'', JStr ''Hel'')],
                             choice_finish_reason = JNull\<rparr>]\<rparr>,
         \<lparr>chunk_choices = [\<lparr>choice_index = 0, choice_delta = JObj [(''content'', JStr ''lo'')],
                             choice_finish_reason = JStr ''stop''\<rparr>]\<rparr>]),
      textGeneration = (\<lambda>request. Never),
      textGenerationStream = (\<lambda>request. Returns
        [\<lparr>token_text = ''Hel'', item_raw = JObj [(''token'', JObj [(''text'', JStr ''Hel'')])]\<rparr>,
         \<lparr>token_text = ''lo'', item_raw = JObj [(''token'', JObj [(''text'', JStr ''lo'')])]\<rparr>])\<rparr>"

text \<open>Options that ask for streaming and carry a callbacks handler.\<close>

definition streaming_options :: "InferenceOptions option" where
  "streaming_options = Some \<lparr>options_stream = Some True, options_callbacks = True\<rparr>"

text \<open>The texts of the outputs of a run, and the accumulated values its callback received.\<close>

definition output_texts ::
  "(Runtime \<Rightarrow> Output option \<Rightarrow> Prompt option \<Rightarrow> jsval) \<Rightarrow> Runtime \<Rightarrow> RunResult \<Rightarrow> jsval list" where
  "output_texts project rt r = map (\<lambda>out. project rt (Some out) None) (run_outputs r)"

definition accumulated_values :: "RunResult \<Rightarrow> jsval list" where
  "accumulated_values r = map call_accumulated (run_stream_calls r)"



section \<open>Properties of utils.ts\<close>

subsection \<open>Objects\<close>

lemma getProp_setProp:
  "getProp (setProp acc k v) k' = (if k' = k then v else getProp acc k')"
  by (induction acc) (auto simp: getProp_def)

lemma keys_setProp:
  "keys (setProp acc k v) = (if k \<in> set (keys acc) then keys acc else keys acc @ [k])"
  by (induction acc) (force simp: keys_def)+

lemma set_keys_setProp: "set (keys (setProp acc k v)) = insert k (set (keys acc))"
  by (auto simp: keys_setProp)

lemma map_of_member:
  "distinct (keys es) \<Longrightarrow> (k, v) \<in> set es \<Longrightarrow> map_of es k = Some v"
  by (simp add: keys_def)

lemma map_of_no_key: "k \<notin> set (keys es) \<Longrightarrow> map_of es k = None"
  by (simp add: keys_def map_of_eq_None_iff)

subsection \<open>isEqual on one and the same value\<close>

text \<open>
  The structural path of \<open>isEqual\<close> answers \<open>True\<close> when both arguments are the same
  value, so taking \<^verbatim>\<open>===\<close> on two arrays or objects for \<open>False\<close> loses nothing.
\<close>

lemma strict_eq_same:
  "strict_eq v v \<or> constructor_name v = Some ''Array'' \<or> constructor_name v = Some ''Object''"
  by (cases v) auto

lemma isEqual_same_aux:
  "first = second \<longrightarrow> isEqual first second"
  "xs = ys \<longrightarrow> isEqual_elems xs ys"
  "f = s \<longrightarrow> isEqual_keys f s ks"
proof (induction first second and xs ys and f s ks
       rule: isEqual_isEqual_elems_isEqual_keys.induct)
  case (1 first second)
  then show ?case
    by (cases first) (auto simp: isEqual.simps(1) nullish_def)
next
  case (2 ys)
  then show ?case by simp
next
  case (3 x xs ys)
  then show ?case by (cases ys) auto
next
  case (4 f s)
  then show ?case by simp
next
  case (5 f s k ks)
  then show ?case using strict_eq_same [of "getProp s k"] by auto
qed

lemma isEqual_same: "isEqual v v"
  using isEqual_same_aux(1) by blast

subsection \<open>Where isEqual and the specification's deep equality agree\<close>

text \<open>
  On values read from JSON, \<open>isEqual\<close> never reports a difference between two values
  that are deep-equal in the specification's sense (\<open>isEqual_complete\<close>). The converse
  holds when no object field is falsy on either side (\<open>isEqual_sound\<close>): the two
  branches of the key loop then cover every pair of fields, and a key missing from
  the second object shows as \<^verbatim>\<open>undefined\<close> against a truthy value.
\<close>

lemma wf_getProp: "wf_entries f \<Longrightarrow> wf_json (getProp f k)"
  by (induction f) (auto simp: getProp_def)

lemma wf_nth: "wf_list xs \<Longrightarrow> i < length xs \<Longrightarrow> wf_json (xs ! i)"
  by (induction xs arbitrary: i) (auto simp: nth_Cons split: nat.splits)

lemma deepEqual_spec_truthy: "deepEqual_spec a b \<Longrightarrow> truthy a = truthy b"
  by (cases a; cases b; subst (asm) deepEqual_spec.simps; simp split: if_splits)

lemma deepEqual_spec_cases:
  "deepEqual_spec a b \<Longrightarrow> strict_eq a b
     \<or> (\<exists>xs ys. a = JArr xs \<and> b = JArr ys) \<or> (\<exists>f s. a = JObj f \<and> b = JObj s)"
  by (cases a; cases b; subst (asm) deepEqual_spec.simps; simp split: if_splits)

lemma deepEqual_spec_arr:
  "deepEqual_spec (JArr xs) (JArr ys)
   \<longleftrightarrow> length xs = length ys \<and> (\<forall>i < length xs. deepEqual_spec (xs ! i) (ys ! i))"
  by (subst deepEqual_spec.simps) (auto simp: list_all_iff)

lemma deepEqual_spec_obj:
  "deepEqual_spec (JObj f) (JObj s)
   \<longleftrightarrow> set (keys f) = set (keys s)
       \<and> (\<forall>k \<in> set (keys f). deepEqual_spec (getProp f k) (getProp s k))"
  by (subst deepEqual_spec.simps) (auto simp: list_all_iff)

lemma isEqual_complete_aux:
  "wf_json first \<and> wf_json second \<and> deepEqual_spec first second \<longrightarrow> isEqual first second"
  "wf_list xs \<and> wf_list ys \<and> length xs \<le> length ys
     \<and> (\<forall>i < length xs. deepEqual_spec (xs ! i) (ys ! i)) \<longrightarrow> isEqual_elems xs ys"
  "wf_entries f \<and> wf_entries s
     \<and> (\<forall>k \<in> set ks. deepEqual_spec (getProp f k) (getProp s k)) \<longrightarrow> isEqual_keys f s ks"
proof (induction first second and xs ys and f s ks
       rule: isEqual_isEqual_elems_isEqual_keys.induct)
  case (1 first second)
  show ?case
  proof (intro impI, elim conjE)
    assume wf: "wf_json first" "wf_json second" and eq: "deepEqual_spec first second"
    from deepEqual_spec_cases [OF eq]
    consider (prim) "strict_eq first second"
      | (arr) xs ys where "first = JArr xs" "second = JArr ys"
      | (obj) f s where "first = JObj f" "second = JObj s"
      by blast
    then show "isEqual first second"
    proof cases
      case prim
      then show ?thesis by (simp add: isEqual.simps(1))
    next
      case arr
      with eq have len: "length xs = length ys"
        and all: "\<forall>i < length xs. deepEqual_spec (xs ! i) (ys ! i)"
        by (auto simp: deepEqual_spec_arr)
      from "1.IH"(1) [of xs ys] arr wf len all have "isEqual_elems xs ys"
        by (auto simp: nullish_def)
      with arr len show ?thesis
        by (simp add: isEqual.simps(1) nullish_def)
    next
      case obj
      with eq have ks: "set (keys f) = set (keys s)"
        and all: "\<forall>k \<in> set (keys f). deepEqual_spec (getProp f k) (getProp s k)"
        by (auto simp: deepEqual_spec_obj)
      from wf obj have "distinct (keys f)" "distinct (keys s)" by auto
      with ks have len: "length (keys f) = length (keys s)"
        by (metis distinct_card)
      from "1.IH"(2) [of f s] obj wf len all have "isEqual_keys f s (keys f)"
        by (auto simp: nullish_def)
      with obj len show ?thesis
        by (simp add: isEqual.simps(1) nullish_def)
    qed
  qed
next
  case (2 ys)
  then show ?case by simp
next
  case (3 x xs ys)
  show ?case
  proof (intro impI, elim conjE)
    assume wf: "wf_list (x # xs)" "wf_list ys" and len: "length (x # xs) \<le> length ys"
      and all: "\<forall>i < length (x # xs). deepEqual_spec ((x # xs) ! i) (ys ! i)"
    from len obtain y ys' where ys: "ys = y # ys'" by (cases ys) auto
    from all ys have hd: "deepEqual_spec x y" by auto
    from all ys have tl: "\<forall>i < length xs. deepEqual_spec (xs ! i) (ys' ! i)" by auto
    from "3.IH"(1) wf ys hd have x: "isEqual x y" by simp
    from "3.IH"(2) x wf ys len tl have "isEqual_elems xs ys'" by simp
    with x ys show "isEqual_elems (x # xs) ys" by simp
  qed
next
  case (4 f s)
  then show ?case by simp
next
  case (5 f s k ks)
  show ?case
  proof (intro impI, elim conjE)
    assume wf: "wf_entries f" "wf_entries s"
      and all: "\<forall>k \<in> set (k # ks). deepEqual_spec (getProp f k) (getProp s k)"
    let ?a = "getProp f k" and ?b = "getProp s k"
    from all have eq: "deepEqual_spec ?a ?b" by simp
    from all have rest: "\<forall>k \<in> set ks. deepEqual_spec (getProp f k) (getProp s k)" by simp
    have wfa: "wf_json ?a" "wf_json ?b" using wf by (auto intro: wf_getProp)
    note tr = deepEqual_spec_truthy [OF eq]
    show "isEqual_keys f s (k # ks)"
    proof (cases "truthy ?a")
      case False
      with tr "5.IH"(4) wf rest show ?thesis by simp
    next
      case True
      show ?thesis
      proof (cases "strict_eq ?a ?b")
        case True
        with \<open>truthy ?a\<close> tr "5.IH"(1) wf rest show ?thesis by simp
      next
        case False
        with deepEqual_spec_cases [OF eq]
        have ao: "constructor_name ?a = Some ''Array'' \<or> constructor_name ?a = Some ''Object''"
          by auto
        from "5.IH"(2) \<open>truthy ?a\<close> tr False ao wfa eq have ab: "isEqual ?a ?b" by simp
        from "5.IH"(3) \<open>truthy ?a\<close> tr False ao ab wf rest have "isEqual_keys f s ks" by simp
        with \<open>truthy ?a\<close> tr False ao ab show ?thesis by simp
      qed
    qed
  qed
qed

lemma isEqual_complete:
  "wf_json a \<Longrightarrow> wf_json b \<Longrightarrow> deepEqual_spec a b \<Longrightarrow> isEqual a b"
  using isEqual_complete_aux(1) by blast


lemma truthy_fields_getProp:
  "truthy_fields_entries f \<Longrightarrow> k \<in> set (keys f) \<Longrightarrow>
   truthy (getProp f k) \<and> truthy_fields (getProp f k)"
  by (induction f) (force simp: getProp_def keys_def)+

lemma truthy_fields_nth:
  "truthy_fields_list xs \<Longrightarrow> i < length xs \<Longrightarrow> truthy_fields (xs ! i)"
  by (induction xs arbitrary: i) (auto simp: nth_Cons split: nat.splits)

lemma getProp_no_key: "k \<notin> set (keys s) \<Longrightarrow> getProp s k = JUndefined"
  by (simp add: getProp_def map_of_no_key)

lemma strict_eq_deepEqual_spec: "strict_eq a b \<Longrightarrow> deepEqual_spec a b"
  by (subst deepEqual_spec.simps) simp

lemma isEqual_sound_aux:
  "wf_json first \<and> wf_json second \<and> truthy_fields first \<and> truthy_fields second
     \<and> isEqual first second \<longrightarrow> deepEqual_spec first second"
  "wf_list xs \<and> wf_list ys \<and> truthy_fields_list xs \<and> truthy_fields_list ys
     \<and> length xs \<le> length ys \<and> isEqual_elems xs ys
     \<longrightarrow> (\<forall>i < length xs. deepEqual_spec (xs ! i) (ys ! i))"
  "wf_entries f \<and> wf_entries s \<and> truthy_fields_entries f \<and> truthy_fields_entries s
     \<and> set ks \<subseteq> set (keys f) \<and> isEqual_keys f s ks
     \<longrightarrow> (\<forall>k \<in> set ks. k \<in> set (keys s) \<and> deepEqual_spec (getProp f k) (getProp s k))"
proof (induction first second and xs ys and f s ks
       rule: isEqual_isEqual_elems_isEqual_keys.induct)
  case (1 first second)
  show ?case
  proof (intro impI, elim conjE)
    assume wf: "wf_json first" "wf_json second"
      and tf: "truthy_fields first" "truthy_fields second"
      and eq: "isEqual first second"
    show "deepEqual_spec first second"
    proof (cases "strict_eq first second")
      case True
      then show ?thesis by (rule strict_eq_deepEqual_spec)
    next
      case False
      from eq have body: "if strict_eq first second then True
          else if (nullish first \<or> nullish second) \<and> (truthy first \<or> truthy second) then False
          else if constructor_name first \<noteq> constructor_name second then False
          else (case first of
                  JArr xs \<Rightarrow> (case second of
                       JArr ys \<Rightarrow> if length xs \<noteq> length ys then False else isEqual_elems xs ys
                     | _ \<Rightarrow> False)
                | JObj f \<Rightarrow> (case second of
                       JObj s \<Rightarrow> if length (keys f) \<noteq> length (keys s) then False
                                 else isEqual_keys f s (keys f)
                     | _ \<Rightarrow> False)
                | _ \<Rightarrow> strict_eq first second)"
        by (subst (asm) isEqual.simps(1))
      with False have n1: "\<not> ((nullish first \<or> nullish second) \<and> (truthy first \<or> truthy second))"
        and n2: "constructor_name first = constructor_name second"
        by (auto split: if_splits)
      from body False n1 n2
      consider (arr) xs ys where "first = JArr xs" "second = JArr ys" "length xs = length ys"
          "isEqual_elems xs ys"
        | (obj) f s where "first = JObj f" "second = JObj s" "length (keys f) = length (keys s)"
          "isEqual_keys f s (keys f)"
        by (cases first; cases second) (auto split: if_splits)
      then show ?thesis
      proof cases
        case arr
        from "1.IH"(1) [of xs ys] False n1 n2 arr wf tf
        have "\<forall>i < length xs. deepEqual_spec (xs ! i) (ys ! i)"
          by simp
        with arr show ?thesis by (simp add: deepEqual_spec_arr)
      next
        case obj
        from "1.IH"(2) [of f s] False n1 n2 obj wf tf
        have all: "\<forall>k \<in> set (keys f). k \<in> set (keys s)
                     \<and> deepEqual_spec (getProp f k) (getProp s k)"
          by simp
        then have sub: "set (keys f) \<subseteq> set (keys s)" by blast
        from wf obj have d: "distinct (keys f)" "distinct (keys s)" by auto
        from d obj(3) have "card (set (keys f)) = card (set (keys s))"
          by (simp add: distinct_card)
        with sub have "set (keys f) = set (keys s)"
          by (simp add: card_subset_eq)
        with all obj show ?thesis by (simp add: deepEqual_spec_obj)
      qed
    qed
  qed
next
  case (2 ys)
  then show ?case by simp
next
  case (3 x xs ys)
  show ?case
  proof (intro impI, elim conjE)
    assume wf: "wf_list (x # xs)" "wf_list ys"
      and tf: "truthy_fields_list (x # xs)" "truthy_fields_list ys"
      and len: "length (x # xs) \<le> length ys" and eq: "isEqual_elems (x # xs) ys"
    from len obtain y ys' where ys: "ys = y # ys'" by (cases ys) auto
    from eq ys have x: "isEqual x y" and rest: "isEqual_elems xs ys'"
      by (auto split: if_splits)
    from "3.IH"(1) wf tf ys x have hd: "deepEqual_spec x y" by simp
    from "3.IH"(2) wf tf ys x rest len
    have tl: "\<forall>i < length xs. deepEqual_spec (xs ! i) (ys' ! i)" by simp
    show "\<forall>i < length (x # xs). deepEqual_spec ((x # xs) ! i) (ys ! i)"
      using hd tl ys by (auto simp: nth_Cons split: nat.splits)
  qed
next
  case (4 f s)
  then show ?case by simp
next
  case (5 f s k ks)
  show ?case
  proof (intro impI, elim conjE)
    assume wf: "wf_entries f" "wf_entries s"
      and tf: "truthy_fields_entries f" "truthy_fields_entries s"
      and sub: "set (k # ks) \<subseteq> set (keys f)" and eq: "isEqual_keys f s (k # ks)"
    let ?a = "getProp f k" and ?b = "getProp s k"
    from sub have kf: "k \<in> set (keys f)" and sub': "set ks \<subseteq> set (keys f)" by auto
    from truthy_fields_getProp [OF tf(1) kf] have ta: "truthy ?a" and tfa: "truthy_fields ?a"
      by auto
    from eq ta have tb: "truthy ?b"
      by (auto split: if_splits)
    then have ks: "k \<in> set (keys s)"
      using getProp_no_key [of k s] by (cases "k \<in> set (keys s)") simp_all
    from truthy_fields_getProp [OF tf(2) ks] have tfb: "truthy_fields ?b" by simp
    have wfa: "wf_json ?a" "wf_json ?b" using wf by (auto intro: wf_getProp)
    have here: "deepEqual_spec ?a ?b" and rest: "isEqual_keys f s ks"
    proof -
      show "deepEqual_spec ?a ?b"
      proof (cases "strict_eq ?a ?b")
        case True
        then show ?thesis by (rule strict_eq_deepEqual_spec)
      next
        case False
        with eq ta tb have ao: "constructor_name ?a = Some ''Array''
            \<or> constructor_name ?a = Some ''Object''" and ab: "isEqual ?a ?b"
          by (auto split: if_splits)
        from "5.IH"(2) ta tb False ao wfa tfa tfb ab show ?thesis by simp
      qed
      show "isEqual_keys f s ks"
        using eq ta tb by (auto split: if_splits)
    qed
    have "\<forall>k \<in> set ks. k \<in> set (keys s) \<and> deepEqual_spec (getProp f k) (getProp s k)"
    proof (cases "strict_eq ?a ?b")
      case True
      from "5.IH"(1) ta tb True wf tf sub' rest show ?thesis by simp
    next
      case False
      with eq ta tb have ao: "constructor_name ?a = Some ''Array''
          \<or> constructor_name ?a = Some ''Object''" and ab: "isEqual ?a ?b"
        by (auto split: if_splits)
      from "5.IH"(3) ta tb False ao ab wf tf sub' rest show ?thesis by simp
    qed
    with ks here
    show "\<forall>k \<in> set (k # ks). k \<in> set (keys s) \<and> deepEqual_spec (getProp f k) (getProp s k)"
      by simp
  qed
qed

lemma isEqual_sound:
  "wf_json a \<Longrightarrow> wf_json b \<Longrightarrow> truthy_fields a \<Longrightarrow> truthy_fields b \<Longrightarrow>
   isEqual a b \<Longrightarrow> deepEqual_spec a b"
  using isEqual_sound_aux(1) by blast

lemma isEqual_deepEqual_spec:
  "wf_json a \<Longrightarrow> wf_json b \<Longrightarrow> truthy_fields a \<Longrightarrow> truthy_fields b \<Longrightarrow>
   isEqual a b = deepEqual_spec a b"
  using isEqual_complete isEqual_sound by blast

subsection \<open>C2: isEqual against the specification's deep equality\<close>

text \<open>
  C2 says that \<open>isEqual\<close> returns true exactly when the specification's deep
  equality holds, and false in particular when a key is present on one side only or
  when corresponding values of equal-shaped mappings differ. The loop over the keys
  of the first object has no branch for two falsy values, so it passes over them
  without comparing them: \<^verbatim>\<open>{a: 0}\<close> and \<^verbatim>\<open>{a: false}\<close> are reported equal, and so
  are \<^verbatim>\<open>{a: null}\<close> and \<^verbatim>\<open>{b: 5}\<close>, whose key sets differ. At the top level the same
  function does tell \<^verbatim>\<open>0\<close> from \<^verbatim>\<open>false\<close>. The theorem evaluates the code and the
  specification's equality at these inputs.
\<close>

theorem isEqual_passes_over_falsy_fields:
  "isEqual (JObj [(''a'', JNum 0)]) (JObj [(''a'', JBool False)]) = True
   \<and> deepEqual_spec (JObj [(''a'', JNum 0)]) (JObj [(''a'', JBool False)]) = False
   \<and> isEqual (JObj [(''a'', JNull)]) (JObj [(''b'', JNum 5)]) = True
   \<and> deepEqual_spec (JObj [(''a'', JNull)]) (JObj [(''b'', JNum 5)]) = False
   \<and> isEqual (JNum 0) (JBool False) = False"
  by (simp add: isEqual.simps(1) deepEqual_spec.simps keys_def getProp_def nullish_def)

subsection \<open>The settings diff\<close>

lemma set_foldl_set_add: "set (foldl set_add s xs) = set s \<union> set xs"
  by (induction xs arbitrary: s) auto

lemma set_union_arrays: "set (union_arrays [xs, ys]) = set xs \<union> set ys"
  by (simp add: union_arrays_def set_foldl_set_add)

lemma overrides_fold_keys:
  "set (keys (foldl (\<lambda>result key. if P key then setProp result key (v key) else result) acc ks))
   = set (keys acc) \<union> {k \<in> set ks. P k}"
  by (induction ks arbitrary: acc) (auto simp: set_keys_setProp)

lemma overrides_fold_getProp:
  "getProp (foldl (\<lambda>result key. if P key then setProp result key (v key) else result) acc ks) k
   = (if k \<in> set ks \<and> P k then v k else getProp acc k)"
  by (induction ks arbitrary: acc) (auto simp: getProp_setProp)

text \<open>
  Relative to the code's own \<open>isEqual\<close> the diff is what the specification
  describes: its keys are the keys of either side on which \<open>isEqual\<close> fails, each
  mapped to the requested value.
\<close>

lemma extractOverrideSettings_keys:
  "set (keys (extractOverrideSettings (Some G) (Some R)))
   = {k \<in> set (keys G) \<union> set (keys R). \<not> isEqual (getProp G k) (getProp R k)}"
  unfolding extractOverrideSettings_def Let_def
  by (simp add: overrides_fold_keys set_union_arrays) (simp add: keys_def)

lemma extractOverrideSettings_getProp:
  "getProp (extractOverrideSettings (Some G) (Some R)) k
   = (if k \<in> set (keys G) \<union> set (keys R) \<and> \<not> isEqual (getProp G k) (getProp R k)
      then getProp R k else JUndefined)"
  unfolding extractOverrideSettings_def Let_def
  by (simp add: overrides_fold_getProp set_union_arrays) (simp add: getProp_def)

subsection \<open>C3: the diff against the specification's deep equality\<close>

text \<open>
  C3 says that the diff holds exactly the keys on which the specification's deep
  equality fails, and that layering the diff over the global settings reproduces the
  requested settings. With global settings \<^verbatim>\<open>{x: {a: 0}}\<close> and requested settings
  \<^verbatim>\<open>{x: {a: false}}\<close> the values at \<^verbatim>\<open>x\<close> are not deep-equal, yet the diff is empty
  (\<open>isEqual\<close> passes over the two falsy fields, the defect of C2), and the layered
  settings keep \<^verbatim>\<open>{a: 0}\<close> where \<^verbatim>\<open>{a: false}\<close> was requested.
\<close>

theorem extractOverrideSettings_drops_falsy_change:
  "extractOverrideSettings (Some [(''x'', JObj [(''a'', JNum 0)])])
       (Some [(''x'', JObj [(''a'', JBool False)])]) = []
   \<and> deepEqual_spec (getProp [(''x'', JObj [(''a'', JNum 0)])] ''x'')
        (getProp [(''x'', JObj [(''a'', JBool False)])] ''x'') = False
   \<and> getProp (layer_settings [(''x'', JObj [(''a'', JNum 0)])]
        (extractOverrideSettings (Some [(''x'', JObj [(''a'', JNum 0)])])
           (Some [(''x'', JObj [(''a'', JBool False)])]))) ''x''
       = JObj [(''a'', JNum 0)]"
  by (simp add: extractOverrideSettings_def union_arrays_def keys_def getProp_def nullish_def
        layer_settings_def isEqual.simps(1) deepEqual_spec.simps)

section \<open>Properties of the stream reducer\<close>

subsection \<open>The loop of reduce, field by field\<close>

lemma reduce_entries_step:
  "reduce_entries acc ((key, val) # rest) =
     (case merged_field (getProp acc key) val of
        Inl e \<Rightarrow> Inl e
      | Inr x \<Rightarrow>
          reduce_entries
            (if kept_combination (getProp acc key) val then acc else setProp acc key x) rest)"
  by (cases "getProp acc key"; cases val)
     (auto simp: merged_field_def nullish_def split: sum.splits)

lemma reduce_entries_fields:
  "distinct (keys es) \<Longrightarrow> reduce_entries acc es = Inr r \<Longrightarrow>
   (case map_of es k of
      None \<Rightarrow> getProp r k = getProp acc k
    | Some v \<Rightarrow> merged_field (getProp acc k) v = Inr (getProp r k))"
proof (induction es arbitrary: acc)
  case Nil
  then show ?case by simp
next
  case (Cons e es)
  obtain key val where e: "e = (key, val)" by (cases e)
  from Cons.prems(1) have d: "distinct (keys es)" and nk: "key \<notin> set (keys es)"
    by (auto simp: keys_def e)
  from nk have mk: "map_of es key = None"
    by (rule map_of_no_key)
  from Cons.prems(2) obtain x where
    x: "merged_field (getProp acc key) val = Inr x" and
    r: "reduce_entries
          (if kept_combination (getProp acc key) val then acc else setProp acc key x) es = Inr r"
    unfolding e reduce_entries_step by (auto split: sum.splits)
  let ?acc' = "if kept_combination (getProp acc key) val then acc else setProp acc key x"
  have kx: "kept_combination (getProp acc key) val \<Longrightarrow> x = getProp acc key"
    using x by (cases "getProp acc key") (auto simp: merged_field_def nullish_def split: if_splits)
  have acc': "getProp ?acc' k = (if k = key then x else getProp acc k)" for k
    using kx by (auto simp: getProp_setProp)
  note IH = Cons.IH [OF d r]
  show ?case
  proof (cases "k = key")
    case True
    with IH mk x acc' show ?thesis by (simp add: e)
  next
    case False
    then have "getProp ?acc' k = getProp acc k"
      using acc' by simp
    with IH False show ?thesis by (simp add: e split: option.splits)
  qed
qed

lemma reduce_objects: "reduce (JObj acc) (JObj delta) = reduce_entries acc delta"
  by (simp add: reduce.simps(1) entries_def spread_def nullish_def)

subsection \<open>When reduce returns\<close>

text \<open>
  \<open>reduce\<close> throws only from \<^verbatim>\<open>Object.entries\<close>, on a delta value that is \<^verbatim>\<open>null\<close> or
  \<^verbatim>\<open>undefined\<close> and meets an object in the accumulator. A delta that holds no
  \<^verbatim>\<open>null\<close> and no \<^verbatim>\<open>undefined\<close> at any depth is merged without an exception into any
  accumulator.
\<close>

lemma no_nullish_index_entries:
  "no_nullish_entries (index_entries i xs) = no_nullish_list xs"
  by (induction xs arbitrary: i) auto

lemma no_nullish_chars: "no_nullish_list (map (\<lambda>c. JStr [c]) s)"
  by (induction s) auto

lemma no_nullish_own_entries: "no_nullish v \<Longrightarrow> no_nullish_entries (own_entries v)"
  by (cases v) (auto simp: no_nullish_index_entries no_nullish_chars)

lemma no_nullish_entriesD: "no_nullish v \<Longrightarrow> entries v = Inr (own_entries v)"
  by (cases v) (auto simp: entries_def nullish_def)

lemma reduce_returns_aux:
  "(no_nullish delta \<longrightarrow> (\<exists>r. reduce acc delta = Inr r))"
  "(no_nullish_entries es \<longrightarrow> (\<exists>r. reduce_entries acc' es = Inr r))"
proof (induction acc delta and acc' es rule: reduce_reduce_entries.induct)
  case (1 acc delta)
  then show ?case
    by (auto simp: reduce.simps(1) no_nullish_entriesD no_nullish_own_entries)
next
  case (2 acc)
  then show ?case by simp
next
  case (3 acc key val rest)
  let ?a = "getProp acc key"
  show ?case
  proof
    assume nn: "no_nullish_entries ((key, val) # rest)"
    then have v: "no_nullish val" and rest: "no_nullish_entries rest" by auto
    consider (adopt) "nullish ?a"
      | (concat) "\<not> nullish ?a" "typeof ?a = ''string'' \<and> typeof val = ''string''"
      | (recurse) "\<not> nullish ?a" "\<not> (typeof ?a = ''string'' \<and> typeof val = ''string'')"
          "typeof ?a = ''object'' \<and> \<not> isArray ?a"
      | (keep) "\<not> nullish ?a" "\<not> (typeof ?a = ''string'' \<and> typeof val = ''string'')"
          "\<not> (typeof ?a = ''object'' \<and> \<not> isArray ?a)"
      by blast
    then show "\<exists>r. reduce_entries acc ((key, val) # rest) = Inr r"
    proof cases
      case adopt
      with "3.IH"(1) rest show ?thesis by simp
    next
      case concat
      with "3.IH"(2) rest show ?thesis by simp
    next
      case recurse
      from "3.IH"(3) [OF recurse] v obtain b where b: "reduce ?a val = Inr b" by blast
      from "3.IH"(4) [OF recurse b] rest
      obtain r where "reduce_entries (setProp acc key (JObj b)) rest = Inr r" by blast
      with recurse b show ?thesis by simp
    next
      case keep
      with "3.IH"(5) rest show ?thesis by auto
    qed
  qed
qed

lemma reduce_returns: "no_nullish delta \<Longrightarrow> \<exists>r. reduce acc delta = Inr r"
  using reduce_returns_aux(1) by blast

subsection \<open>C1: the field rules of the streaming merge\<close>

text \<open>
  C1 as stated fails in its last rule: a combination that is none of the first three
  is not overwritten with the incoming value. The accumulated \<^verbatim>\<open>content: "Hi"\<close> stays
  when the delta carries \<^verbatim>\<open>content: null\<close>, and the number \<^verbatim>\<open>1\<close> stays when the delta
  carries \<^verbatim>\<open>2\<close>.
\<close>

theorem reduce_keeps_field_counterexample:
  "reduce (JObj [(''content'', JStr ''Hi'')]) (JObj [(''content'', JNull)])
     = Inr [(''content'', JStr ''Hi'')]
   \<and> reduce (JObj [(''n'', JNum 1)]) (JObj [(''n'', JNum 2)]) = Inr [(''n'', JNum 1)]"
  by (simp add: reduce_objects getProp_def nullish_def)

text \<open>
  C1 (amended). For every accumulator mapping and every delta mapping: the merge
  returns whenever the delta holds no \<^verbatim>\<open>null\<close> and no \<^verbatim>\<open>undefined\<close>; and when it
  returns \<open>r\<close>, then field by field: a field the delta does not name is unchanged; a
  field unset, \<^verbatim>\<open>undefined\<close> or \<^verbatim>\<open>null\<close> in the accumulator adopts the incoming value;
  a field that is a string on both sides becomes the concatenation; a field that is
  a mapping in the accumulator becomes the merge, by the same function, of the
  incoming value into it (whatever the incoming value is); and in every other
  combination (the accumulator holds a boolean, a number or an array, or a string
  against a non-string) the field keeps the accumulator's value.
\<close>

theorem reduce_field_rules:
  assumes dist: "distinct (keys delta)"
  shows "(no_nullish (JObj delta) \<longrightarrow> (\<exists>r. reduce (JObj acc) (JObj delta) = Inr r))
       \<and> (\<forall>r. reduce (JObj acc) (JObj delta) = Inr r \<longrightarrow>
            (\<forall>k. k \<notin> set (keys delta) \<longrightarrow> getProp r k = getProp acc k)
          \<and> (\<forall>k v. (k, v) \<in> set delta \<and> nullish (getProp acc k) \<longrightarrow> getProp r k = v)
          \<and> (\<forall>k s t. (k, JStr t) \<in> set delta \<and> getProp acc k = JStr s
                 \<longrightarrow> getProp r k = JStr (s @ t))
          \<and> (\<forall>k v sub. (k, v) \<in> set delta \<and> getProp acc k = JObj sub
                 \<longrightarrow> (\<exists>m. reduce (JObj sub) v = Inr m \<and> getProp r k = JObj m))
          \<and> (\<forall>k v. (k, v) \<in> set delta \<and> kept_combination (getProp acc k) v
                 \<longrightarrow> getProp r k = getProp acc k))"
proof (intro conjI allI impI)
  assume "no_nullish (JObj delta)"
  then show "\<exists>r. reduce (JObj acc) (JObj delta) = Inr r"
    by (rule reduce_returns)
next
  fix r
  assume "reduce (JObj acc) (JObj delta) = Inr r"
  then have loop: "reduce_entries acc delta = Inr r"
    by (simp only: reduce_objects)
  have absent: "getProp r k = getProp acc k" if "k \<notin> set (keys delta)" for k
    using reduce_entries_fields [OF dist loop, of k] map_of_no_key [OF that] by simp
  have present: "merged_field (getProp acc k) v = Inr (getProp r k)"
    if "(k, v) \<in> set delta" for k v
    using reduce_entries_fields [OF dist loop, of k] map_of_member [OF dist that] by simp
  {
    fix k
    assume "k \<notin> set (keys delta)"
    then show "getProp r k = getProp acc k" by (rule absent)
  next
    fix k v
    assume "(k, v) \<in> set delta \<and> nullish (getProp acc k)"
    then show "getProp r k = v"
      using present [of k v] by (simp add: merged_field_def)
  next
    fix k s t
    assume "(k, JStr t) \<in> set delta \<and> getProp acc k = JStr s"
    then show "getProp r k = JStr (s @ t)"
      using present [of k "JStr t"] by (simp add: merged_field_def nullish_def)
  next
    fix k v sub
    assume "(k, v) \<in> set delta \<and> getProp acc k = JObj sub"
    then show "\<exists>m. reduce (JObj sub) v = Inr m \<and> getProp r k = JObj m"
      using present [of k v] by (auto simp: merged_field_def nullish_def split: sum.splits)
  next
    fix k v
    assume "(k, v) \<in> set delta \<and> kept_combination (getProp acc k) v"
    then show "getProp r k = getProp acc k"
      using present [of k v]
      by (cases "getProp acc k") (auto simp: merged_field_def nullish_def)
  }
qed

theorem reduce_field_rules_witness:
  "distinct (keys [(''content'', JStr ''lo''),
                   (''function_call'', JObj [(''arguments'', JStr ''}'')]),
                   (''n'', JNum 2), (''role'', JStr ''assistant'')])
   \<and> no_nullish (JObj [(''content'', JStr ''lo''),
                        (''function_call'', JObj [(''arguments'', JStr ''}'')]),
                        (''n'', JNum 2), (''role'', JStr ''assistant'')])
   \<and> reduce (JObj [(''content'', JStr ''Hel''),
                    (''function_call'', JObj [(''arguments'', JStr ''{'')]),
                    (''n'', JNum 1), (''id'', JStr ''c1'')])
             (JObj [(''content'', JStr ''lo''),
                    (''function_call'', JObj [(''arguments'', JStr ''}'')]),
                    (''n'', JNum 2), (''role'', JStr ''assistant'')])
     = Inr [(''content'', JStr ''Hello''), (''function_call'', JObj [(''arguments'', JStr ''{}'')]),
            (''n'', JNum 1), (''id'', JStr ''c1''), (''role'', JStr ''assistant'')]
   \<and> kept_combination
        (getProp [(''content'', JStr ''Hel''),
                  (''function_call'', JObj [(''arguments'', JStr ''{'')]),
                  (''n'', JNum 1), (''id'', JStr ''c1'')] ''n'') (JNum 2)"
proof -
  let ?acc = "[(''content'', JStr ''Hel''), (''function_call'', JObj [(''arguments'', JStr ''{'')]),
               (''n'', JNum 1), (''id'', JStr ''c1'')]"
  let ?delta = "[(''content'', JStr ''lo''), (''function_call'', JObj [(''arguments'', JStr ''}'')]),
                 (''n'', JNum 2), (''role'', JStr ''assistant'')]"
  have dist: "distinct (keys ?delta)"
    by (simp add: keys_def)
  have red: "reduce (JObj ?acc) (JObj ?delta)
     = Inr [(''content'', JStr ''Hello''), (''function_call'', JObj [(''arguments'', JStr ''{}'')]),
            (''n'', JNum 1), (''id'', JStr ''c1''), (''role'', JStr ''assistant'')]"
    by (simp add: reduce_objects getProp_def nullish_def)
  show ?thesis
    using dist red reduce_field_rules [OF dist, of ?acc] by (simp add: getProp_def)
qed

subsection \<open>Errors of the reducer\<close>





lemma map_set_keys:
  "map fst (map_set m k v) = (if k \<in> fst ` set m then map fst m else map fst m @ [k])"
  by (induction m) force+

lemma map_set_distinct: "distinct (map fst m) \<Longrightarrow> distinct (map fst (map_set m k v))"
  by (simp add: map_set_keys)

subsection \<open>The accumulator after a fragment\<close>






subsection \<open>C4: the choice-count check\<close>




section \<open>Properties of the chat-completion parser\<close>

subsection \<open>C5: the history boundary\<close>

lemma history_walk_prefix:
  assumes "prompt_name t = prompt_name target"
    and "\<forall>p \<in> set pre. prompt_name p \<noteq> prompt_name target"
  shows "history_walk rt target (pre @ t # post) messages = add_prompts rt (pre @ [t]) messages"
  using assms
proof (induction pre arbitrary: messages)
  case Nil
  then show ?case by (simp split: sum.splits)
next
  case (Cons p pre)
  then show ?case by (simp split: sum.splits)
qed

lemma history_walk_upto:
  "history_walk rt target prompts messages
   = add_prompts rt (takeWhile (\<lambda>p. prompt_name p \<noteq> prompt_name target) prompts
                     @ take 1 (dropWhile (\<lambda>p. prompt_name p \<noteq> prompt_name target) prompts))
       messages"
  by (induction prompts arbitrary: messages) (auto split: sum.splits)

text \<open>
  C5. For every document, the walk yields the messages derived from the prompts
  declared before the first prompt that bears the target's name, and from that
  prompt, in order, and stops there. When \<open>t\<close> is that prompt, \<open>pre\<close> the prompts
  declared before it and \<open>post\<close> those declared after it, these are the messages
  derived from \<open>pre\<close> and \<open>t\<close>, and what \<open>deserialize\<close> returns for the target does not
  depend on \<open>post\<close>.
\<close>

theorem history_boundary:
  assumes target: "prompt_name t = prompt_name target"
    and before: "\<forall>p \<in> set pre. prompt_name p \<noteq> prompt_name target"
  shows "history_walk rt target prompts messages
           = add_prompts rt
               (takeWhile (\<lambda>p. prompt_name p \<noteq> prompt_name target) prompts
                @ take 1 (dropWhile (\<lambda>p. prompt_name p \<noteq> prompt_name target) prompts))
               messages
       \<and> history_walk rt target (pre @ t # post) messages = add_prompts rt (pre @ [t]) messages
       \<and> deserialize rt target (pre @ t # post) = deserialize rt target (pre @ [t])"
proof -
  have walk: "history_walk rt target (pre @ t # post') ms = add_prompts rt (pre @ [t]) ms"
    for post' ms
    using history_walk_prefix [OF target before] .
  have eq: "history_walk rt target (pre @ t # post) ms = history_walk rt target (pre @ [t]) ms"
    for ms
    using walk [of post ms] walk [of "[]" ms] by simp
  have "deserialize rt target (pre @ t # post) = deserialize rt target (pre @ [t])"
    unfolding deserialize_def eq by (rule refl)
  with walk history_walk_upto show ?thesis by simp
qed

theorem history_boundary_witness:
  "prompt_name (example_prompt ''p2'' ''How?'' None None)
     = prompt_name (example_prompt ''p2'' ''How?'' None None)
   \<and> prompt_name (example_prompt ''p1'' ''Hi'' None (Some ''Hello''))
     \<noteq> prompt_name (example_prompt ''p2'' ''How?'' None None)
   \<and> deserialize example_runtime (example_prompt ''p2'' ''How?'' None None)
       ([example_prompt ''p1'' ''Hi'' None (Some ''Hello'')]
        @ example_prompt ''p2'' ''How?'' None None
        # [example_prompt ''p3'' ''Later'' None (Some ''Never'')])
     = Inr (setProp (refineChatCompletionParams []) ''messages''
              (JArr [JObj [(''content'', JStr ''Hi''), (''role'', JStr ''user'')],
                     JObj [(''content'', JStr ''Hello''), (''role'', JStr ''assistant'')],
                     JObj [(''content'', JStr ''How?''), (''role'', JStr ''user'')]]))"
proof -
  have short: "deserialize example_runtime (example_prompt ''p2'' ''How?'' None None)
       ([example_prompt ''p1'' ''Hi'' None (Some ''Hello'')]
        @ [example_prompt ''p2'' ''How?'' None None])
     = Inr (setProp (refineChatCompletionParams []) ''messages''
              (JArr [JObj [(''content'', JStr ''Hi''), (''role'', JStr ''user'')],
                     JObj [(''content'', JStr ''Hello''), (''role'', JStr ''assistant'')],
                     JObj [(''content'', JStr ''How?''), (''role'', JStr ''user'')]]))"
    by code_simp
  have names: "prompt_name (example_prompt ''p1'' ''Hi'' None (Some ''Hello''))
     \<noteq> prompt_name (example_prompt ''p2'' ''How?'' None None)"
    by (simp add: example_prompt_def)
  show ?thesis
    using short names
      history_boundary [of "example_prompt ''p2'' ''How?'' None None"
        "example_prompt ''p2'' ''How?'' None None"
        "[example_prompt ''p1'' ''Hi'' None (Some ''Hello'')]" example_runtime "[]" "[]"
        "[example_prompt ''p3'' ''Later'' None (Some ''Never'')]"]
    by simp
qed

subsection \<open>C6: a target that does not remember the chat context\<close>

lemma strict_eq_JStr: "strict_eq v (JStr s) \<longleftrightarrow> v = JStr s"
  by (cases v) auto











subsection \<open>C10: serialize of a request without a user or function message\<close>

lemma serialize_messages_skips:
  "\<forall>m \<in> set msgs. \<not> strict_eq (getProp m ''role'') (JStr ''user'')
                  \<and> \<not> strict_eq (getProp m ''role'') (JStr ''function'') \<Longrightarrow>
   serialize_messages promptName mm params msgs prompts = prompts"
  by (induction msgs arbitrary: prompts) auto

text \<open>
  C10. When no message of the request has the role \<^verbatim>\<open>user\<close> or \<^verbatim>\<open>function\<close>, the loop
  of \<open>serialize\<close> builds no prompt, and \<open>serialize\<close> throws at the renaming of the last
  prompt: it does not return.
\<close>

theorem serialize_without_user_message_throws:
  assumes "\<forall>m \<in> set (request_messages data).
             getProp m ''role'' \<noteq> JStr ''user'' \<and> getProp m ''role'' \<noteq> JStr ''function''"
  shows "serialize_messages promptName mm ps (request_messages data) [] = []
       \<and> serialize rt promptName data aiConfig params = Inl TypeError"
proof -
  from assms have skip: "serialize_messages promptName mm' ps' (request_messages data) [] = []"
    for mm' ps'
    by (intro serialize_messages_skips) (auto simp: strict_eq_JStr)
  then show ?thesis
    by (simp add: serialize_def Let_def)
qed

theorem serialize_without_user_message_throws_witness:
  "getProp [(''role'', JStr ''system''), (''content'', JStr ''Be brief.'')] ''role'' \<noteq> JStr ''user''
   \<and> getProp [(''role'', JStr ''assistant''), (''content'', JStr ''Hello'')] ''role''
       \<noteq> JStr ''function''
   \<and> serialize example_runtime ''greeting''
       \<lparr>request_messages = [[(''role'', JStr ''system''), (''content'', JStr ''Be brief.'')],
                             [(''role'', JStr ''assistant''), (''content'', JStr ''Hello'')]],
        request_fields = [(''model'', JStr ''gpt-4'')]\<rparr>
       \<lparr>config_prompts = [], config_models = []\<rparr> None
     = Inl TypeError"
  using serialize_without_user_message_throws
    [of "\<lparr>request_messages = [[(''role'', JStr ''system''), (''content'', JStr ''Be brief.'')],
                              [(''role'', JStr ''assistant''), (''content'', JStr ''Hello'')]],
          request_fields = [(''model'', JStr ''gpt-4'')]\<rparr>"
        "''greeting''" _ _ example_runtime "\<lparr>config_prompts = [], config_models = []\<rparr>" None]
  by (simp add: getProp_def)

section \<open>Properties of the notifications\<close>

subsection \<open>Time-outs and the aggregate\<close>

lemma withTimeout_late:
  "\<not> settled_by p (seconds * 1000) \<Longrightarrow>
   withTimeout p seconds = Rejects (seconds * 1000) (Error ''Timeout'')"
  by (cases p) (auto simp: withTimeout_def)

lemma withTimeout_settled: "settled_by (withTimeout p seconds) (seconds * 1000)"
  by (cases p) (auto simp: withTimeout_def)

lemma first_rejection_member:
  "first_rejection ps = Some (t, e) \<Longrightarrow> Rejects t e \<in> set ps"
  by (induction ps arbitrary: t e rule: first_rejection.induct)
     (auto split: option.splits if_splits)

lemma first_rejection_some:
  "\<exists>p \<in> set ps. rejected p \<Longrightarrow> \<exists>t e. first_rejection ps = Some (t, e)"
  by (induction ps rule: first_rejection.induct) (auto split: option.splits)

lemma first_rejection_none:
  "first_rejection ps = None \<Longrightarrow> \<forall>p \<in> set ps. \<not> rejected p"
  using first_rejection_some by fastforce

lemma all_fulfilled_settled:
  "\<forall>p \<in> set ps. settled_by p limit \<and> \<not> rejected p \<Longrightarrow>
   \<exists>t vs. all_fulfilled ps = Some (t, vs) \<and> t \<le> limit"
proof (induction ps)
  case Nil
  then show ?case by simp
next
  case (Cons p ps)
  then obtain t v where p: "p = Fulfils t v" "t \<le> limit"
    by (cases p) auto
  from Cons obtain t' vs where "all_fulfilled ps = Some (t', vs)" "t' \<le> limit"
    by auto
  with p show ?case by simp
qed

lemma promise_all_settled:
  assumes "\<forall>p \<in> set ps. settled_by p limit"
  shows "settled_by (promise_all ps) limit"
proof (cases "first_rejection ps")
  case None
  with assms first_rejection_none [OF None] all_fulfilled_settled [of ps limit]
  show ?thesis
    by (auto simp: promise_all_def)
next
  case (Some te)
  obtain t e where te: "te = (t, e)" by (cases te)
  from first_rejection_member [OF Some [unfolded te]] assms have "t \<le> limit"
    by fastforce
  with Some te show ?thesis
    by (simp add: promise_all_def)
qed

lemma promise_all_rejects:
  assumes "\<exists>p \<in> set ps. rejected p"
  shows "\<exists>t e. promise_all ps = Rejects t e"
  using first_rejection_some [OF assms] by (auto simp: promise_all_def)

lemma promise_all_fulfils:
  assumes "\<forall>p \<in> set ps. \<exists>t v. p = Fulfils t v"
  shows "\<exists>t vs. promise_all ps = Fulfils t vs"
proof -
  from assms have nr: "\<forall>p \<in> set ps. \<not> rejected p" by auto
  have "first_rejection ps = None"
  proof (rule ccontr)
    assume "first_rejection ps \<noteq> None"
    then obtain t e where "first_rejection ps = Some (t, e)" by auto
    from first_rejection_member [OF this] nr show False by auto
  qed
  moreover from assms have "\<exists>t vs. all_fulfilled ps = Some (t, vs)"
    by (induction ps) auto
  ultimately show ?thesis by (auto simp: promise_all_def)
qed

lemma callback_tasks_set:
  "set (callback_tasks m now ev)
   = (\<lambda>cb. withTimeout (cb (stamped now ev)) (timeout m)) ` set (callbacks m)"
  by (simp add: callback_tasks_def stamped_def Let_def)

lemma runCallbacks_settled: "settled_by (fst (runCallbacks m now ev)) (timeout m * 1000)"
proof -
  have "\<forall>p \<in> set (callback_tasks m now ev). settled_by p (timeout m * 1000)"
    by (auto simp: callback_tasks_set withTimeout_settled)
  from promise_all_settled [OF this] show ?thesis
    by (cases "promise_all (callback_tasks m now ev)") (auto simp: runCallbacks_def)
qed

lemma runCallbacks_rejects:
  assumes "\<exists>cb \<in> set (callbacks m). \<not> settled_by (cb (stamped now ev)) (timeout m * 1000)"
  shows "\<exists>t e. runCallbacks m now ev = (Rejects t e, m)"
proof -
  from assms obtain cb where cb: "cb \<in> set (callbacks m)"
    "\<not> settled_by (cb (stamped now ev)) (timeout m * 1000)" by blast
  from withTimeout_late [OF cb(2)] cb(1)
  have "\<exists>p \<in> set (callback_tasks m now ev). rejected p"
    unfolding callback_tasks_set by force
  from promise_all_rejects [OF this] show ?thesis
    by (auto simp: runCallbacks_def)
qed

subsection \<open>C9: a listener that times out\<close>

text \<open>
  C9 as stated fails: a notification time-out does propagate to the caller of
  \<^verbatim>\<open>run\<close>. With one listener that never completes (and the default time-out), the
  aggregate \<open>runCallbacks\<close> does not resolve but rejects with the Timeout error, and
  the chat parser's \<^verbatim>\<open>run\<close>, which awaits the \<^verbatim>\<open>on_run_start\<close> notification, throws
  that error.
\<close>

theorem timeout_reaches_run_counterexample:
  "fst (runCallbacks (new_CallbackManager [\<lambda>ev. Pending] None) 0
          \<lparr>event_name = ''on_run_start'',
           event_data = RunStart (example_prompt ''p1'' ''Hi'' None None) streaming_options,
           ts_ns = None\<rparr>)
     = Rejects 0 (Error ''Timeout'')
   \<and> chat_run example_runtime scenario_provider (new_CallbackManager [\<lambda>ev. Pending] None) 0
       (example_prompt ''p1'' ''Hi'' None None) [example_prompt ''p1'' ''Hi'' None None]
       streaming_options
     = Throws (Error ''Timeout'')"
  by (simp add: chat_run_def runCallbacks_def callback_tasks_def promise_all_def withTimeout_def
        new_CallbackManager_def DEFAULT_TIMEOUT_SECONDS_def)

text \<open>
  C9 (amended). For every notification dispatch: a listener that is still pending
  when its time-out elapses makes its own task reject with the Timeout error (each
  task is computed from its own listener only); the aggregate \<open>runCallbacks\<close> has
  settled when the time-out elapses; it resolves when every listener completes
  within the time-out, and it rejects when a listener is still pending then. The
  \<^verbatim>\<open>run\<close> methods of the chat and the text-generation parser await the
  \<^verbatim>\<open>on_run_start\<close> notification, so such a time-out makes \<^verbatim>\<open>run\<close> throw: the error
  propagates to the caller of \<^verbatim>\<open>run\<close>.
\<close>

theorem timeout_rejects_notify_and_run:
  "(\<not> settled_by p (seconds * 1000)
      \<longrightarrow> withTimeout p seconds = Rejects (seconds * 1000) (Error ''Timeout''))
   \<and> settled_by (fst (runCallbacks m now ev)) (timeout m * 1000)
   \<and> ((\<forall>cb \<in> set (callbacks m).
          \<exists>t v. cb (stamped now ev) = Fulfils t v \<and> t \<le> timeout m * 1000)
        \<longrightarrow> (\<exists>t. fst (runCallbacks m now ev) = Fulfils t ()))
   \<and> ((\<exists>cb \<in> set (callbacks m). \<not> settled_by (cb (stamped now ev)) (timeout m * 1000))
        \<longrightarrow> (\<exists>t e. runCallbacks m now ev = (Rejects t e, m)))
   \<and> ((\<exists>cb \<in> set (callbacks m).
          \<not> settled_by (cb (stamped now \<lparr>event_name = ''on_run_start'',
                                          event_data = RunStart prompt options, ts_ns = None\<rparr>))
               (timeout m * 1000))
        \<longrightarrow> (\<exists>e. chat_run rt provider m now prompt prompts options = Throws e
                 \<and> hf_run rt provider m now prompt options = Throws e))"
proof -
  have late: "\<not> settled_by p (seconds * 1000)
      \<longrightarrow> withTimeout p seconds = Rejects (seconds * 1000) (Error ''Timeout'')"
    using withTimeout_late by blast
  have fulfils: "\<exists>t. fst (runCallbacks m now ev) = Fulfils t ()"
    if all: "\<forall>cb \<in> set (callbacks m).
               \<exists>t v. cb (stamped now ev) = Fulfils t v \<and> t \<le> timeout m * 1000"
  proof -
    have "\<forall>p \<in> set (callback_tasks m now ev). \<exists>t v. p = Fulfils t v"
      unfolding callback_tasks_set using all by (auto simp: withTimeout_def)
    from promise_all_fulfils [OF this] show ?thesis
      by (auto simp: runCallbacks_def)
  qed
  have rejects: "\<exists>t e. runCallbacks m now ev = (Rejects t e, m)"
    if "\<exists>cb \<in> set (callbacks m). \<not> settled_by (cb (stamped now ev)) (timeout m * 1000)"
    using runCallbacks_rejects [OF that] .
  let ?start = "\<lparr>event_name = ''on_run_start'', event_data = RunStart prompt options,
                  ts_ns = None\<rparr>"
  have throws: "\<exists>e. chat_run rt provider m now prompt prompts options = Throws e
                 \<and> hf_run rt provider m now prompt options = Throws e"
    if "\<exists>cb \<in> set (callbacks m). \<not> settled_by (cb (stamped now ?start)) (timeout m * 1000)"
  proof -
    from runCallbacks_rejects [OF that] obtain t e where
      "runCallbacks m now ?start = (Rejects t e, m)" by blast
    then show ?thesis
      by (simp add: chat_run_def hf_run_def)
  qed
  from late runCallbacks_settled [of m now ev] fulfils rejects throws show ?thesis
    by blast
qed

theorem timeout_rejects_notify_and_run_witness:
  "\<not> settled_by (Pending :: jsval promise) (5 * 1000)
   \<and> withTimeout (Pending :: jsval promise) 5 = Rejects (5 * 1000) (Error ''Timeout'')
   \<and> fst (runCallbacks (new_CallbackManager [\<lambda>ev. Fulfils 3 JNull, \<lambda>ev. Pending] (Some 5)) 0
            \<lparr>event_name = ''on_run_start'',
             event_data = RunStart (example_prompt ''p1'' ''Hi'' None None) streaming_options,
             ts_ns = None\<rparr>)
       = Rejects 5000 (Error ''Timeout'')
   \<and> hf_run example_runtime scenario_provider
        (new_CallbackManager [\<lambda>ev. Fulfils 3 JNull, \<lambda>ev. Pending] (Some 5)) 0
        (example_prompt ''p1'' ''Hi'' None None) streaming_options
       = Throws (Error ''Timeout'')"
  using timeout_rejects_notify_and_run
    [of "Pending :: jsval promise" 5
        "new_CallbackManager [\<lambda>ev. Fulfils 3 JNull, \<lambda>ev. Pending] (Some 5)" 0
        "\<lparr>event_name = ''on_run_start'',
          event_data = RunStart (example_prompt ''p1'' ''Hi'' None None) streaming_options,
          ts_ns = None\<rparr>"
        "example_prompt ''p1'' ''Hi'' None None" streaming_options
        example_runtime scenario_provider "[]"]
  by (simp add: hf_run_def runCallbacks_def callback_tasks_def promise_all_def withTimeout_def
        new_CallbackManager_def)

section \<open>Properties of the run methods\<close>

subsection \<open>The streaming decision\<close>

text \<open>
  The OpenAI parsers decide by the explicit option when it is supplied, otherwise
  by the \<^verbatim>\<open>stream\<close> setting of the request when it is set, otherwise for streaming.
\<close>

lemma stream_decision_explicit:
  "options_stream opts = Some b \<Longrightarrow> stream_decision (Some opts) completionParams = JBool b"
  by (simp add: stream_decision_def nullish_coalesce_def nullish_def)

lemma stream_decision_request:
  "options = None \<or> (\<exists>opts. options = Some opts \<and> options_stream opts = None) \<Longrightarrow>
   stream_decision options completionParams
   = (if nullish (getProp completionParams ''stream'') then JBool True
      else getProp completionParams ''stream'')"
  by (auto simp: stream_decision_def nullish_coalesce_def nullish_def)

subsection \<open>C8: the explicit stream option\<close>

text \<open>
  C8 says that an explicit stream option, true or false, decides first. The
  text-generation parser computes
  \<^verbatim>\<open>options ? (options.stream ? options.stream : true) : false\<close>, which is true for
  every options object: an explicit \<^verbatim>\<open>stream: false\<close> is not honoured, and the run
  streams (its callback receives the fragments). The OpenAI parsers do not stream
  on the same options.
\<close>

theorem hf_ignores_explicit_stream_false:
  "hf_stream_decision (Some \<lparr>options_stream = Some False, options_callbacks = True\<rparr>) = True
   \<and> (case hf_run example_runtime scenario_provider (new_CallbackManager [] None) 0
             (example_prompt ''p1'' ''Hi'' None None)
             (Some \<lparr>options_stream = Some False, options_callbacks = True\<rparr>) of
        Returns (r, m) \<Rightarrow> accumulated_values r = [JStr ''Hel'', JStr ''Hello'']
      | Throws e \<Rightarrow> False
      | Never \<Rightarrow> False)
   \<and> truthy (stream_decision (Some \<lparr>options_stream = Some False, options_callbacks = True\<rparr>)
               (completion_deserialize example_runtime (example_prompt ''p1'' ''Hi'' None None)))
     = False"
  by code_simp

subsection \<open>C7: the streaming scenario\<close>

text \<open>
  The fragments "Hel" and "lo" for choice 0, with a callbacks handler. The
  text-completion parser and the chat parser record the accumulated text "Hello";
  the callback is called twice, with the accumulated texts "Hel" and "Hello" by the
  text-completion parser, with the accumulated messages by the chat parser.
\<close>

lemma completion_run_scenario:
  "(case completion_run example_runtime scenario_provider
           (example_prompt ''p1'' ''Hi'' None None) streaming_options of
      Returns r \<Rightarrow> output_texts getOutputText example_runtime r = [JStr ''Hello'']
                   \<and> accumulated_values r = [JStr ''Hel'', JStr ''Hello'']
    | Throws e \<Rightarrow> False
    | Never \<Rightarrow> False)"
  by code_simp

lemma chat_run_scenario:
  "(case chat_run example_runtime scenario_provider (new_CallbackManager [] None) 0
           (example_prompt ''p1'' ''Hi'' None None) [example_prompt ''p1'' ''Hi'' None None]
           streaming_options of
      Returns (r, m) \<Rightarrow> output_texts getOutputText example_runtime r = [JStr ''Hello'']
                        \<and> accumulated_values r = [JObj [(''content'', JStr ''Hel'')],
                                                   JObj [(''content'', JStr ''Hello'')]]
    | Throws e \<Rightarrow> False
    | Never \<Rightarrow> False)"
  by code_simp

text \<open>
  C7 says that the final recorded output's text is "Hello". The text-generation
  parser's \<open>constructStreamOutput\<close> accumulates the text for the callback but records
  \<^verbatim>\<open>newText\<close>, the last fragment, as the data of the output: the run records "lo".
\<close>

theorem hf_run_records_last_fragment:
  "(case hf_run example_runtime scenario_provider (new_CallbackManager [] None) 0
           (example_prompt ''p1'' ''Hi'' None None) streaming_options of
      Returns (r, m) \<Rightarrow> output_texts hf_getOutputText example_runtime r = [JStr ''lo'']
                        \<and> accumulated_values r = [JStr ''Hel'', JStr ''Hello'']
    | Throws e \<Rightarrow> False
    | Never \<Rightarrow> False)"
  by code_simp

end
